theory Spec2Isabelle
  imports Main "HOL-Library.Word"
begin

unbundle bit_operations_syntax

section \<open>Data model of nat/config.go\<close>

text \<open>
  Addresses are the types of the nff-go \<open>types\<close> package: an IPv4 address is a
  \<open>uint32\<close>, an IPv6 address is a \<open>[16]uint8\<close> array and a MAC address a
  \<open>[6]uint8\<close> array. Arrays are lists whose length is fixed by the type (16 and 6);
  byte slices (\<open>[]byte\<close>, \<open>net.IP\<close>, \<open>net.IPMask\<close>) are lists, and a slice
  that may be \<open>nil\<close> is an \<open>option\<close>.
\<close>

type_synonym IPv4Address = "32 word"
type_synonym IPv6Address = "8 word list"
type_synonym MACAddress = "8 word list"
type_synonym Duration = "64 word"

datatype interfaceType = iPUBLIC | iPRIVATE

text \<open>
  Every error the file returns is a constructor, carrying the values its message prints.
  A run-time panic of Go (indexing outside a slice) is a constructor too, with the index
  and the length.
\<close>

datatype error =
    OnlyIPv4Supported nat
  | FailedToParseAddress string
  | BadIPv6Address string
  | BadProtocolName string
  | VlanPrivateZeroPublicNonzero "16 word" "16 word"
  | VlanPrivateNonzeroPublicZero "16 word" "16 word"
  | VlanTogetherWithKNI
  | DhcpRequiresHostName "16 word"
  | ProtocolFamilyMismatch
  | KniNameRequired "16 word"
  | KniPortsDiffer "16 word" "16 word"
  | OnlyKniForwardingOnPrivate
  | DestinationOutsideSubnet6 IPv6Address
  | DestinationOutsideSubnet4 IPv4Address
  | PanicIndexOutOfRange nat nat
  | PanicNilDereference

record hostPort =
  Addr4 :: IPv4Address
  Addr6 :: IPv6Address
  Port_h :: "16 word"
  ipv6_h :: bool

record protocolId =
  id_p :: "8 word"
  ipv6_p :: bool

record forwardedPort =
  Port :: "16 word"
  Destination :: hostPort
  Protocol :: protocolId

record ipv4Subnet =
  Addr :: IPv4Address
  Mask :: IPv4Address
  addressAcquired :: bool
  kniAddressSet :: bool

record ipv6Subnet =
  Addr_v6 :: IPv6Address
  multicastAddr :: IPv6Address
  Mask_v6 :: IPv6Address
  llAddr :: IPv6Address
  llMulticastAddr :: IPv6Address
  addressAcquired_v6 :: bool
  kniAddressSet_v6 :: bool

record portMapEntry =
  lastused :: int
  finCount :: "8 word"
  terminationDirection :: "8 word"
  static :: bool

text \<open>
  The keys and values of the translation tables are the \<open>Tuple\<close> (IPv4) and
  \<open>Tuple6\<close> (IPv6) structs, both stored in the same \<open>sync.Map\<close>. The package
  declares them outside config.go; here they have the two fields that config.go fills,
  \<open>addr\<close> and \<open>port\<close>. The DHCP client state \<open>ds\<close> of the two subnet
  structs is declared outside config.go as well and is never read here, so the subnet
  records leave it out.
\<close>

datatype tuple = Tuple IPv4Address "16 word" | Tuple6 IPv6Address "16 word"

type_synonym table = "tuple \<rightharpoonup> tuple"

text \<open>
  An interface. The \<open>opposite\<close> pointer always refers to the other interface of the
  same pair, so the functions that follow it take the opposite interface as an argument
  and, where they write to it, return it. The ARP table and the dump files play no part
  in this file's logic and are left out.
\<close>

record ipPort =
  Index :: "16 word"
  Subnet :: ipv4Subnet
  Subnet6 :: ipv6Subnet
  Vlan :: "16 word"
  KNIName :: string
  ForwardPorts :: "forwardedPort list"
  DstMACAddress :: MACAddress
  staticArpMode :: bool
  SrcMACAddress :: MACAddress
  Type :: interfaceType
  portmap :: "portMapEntry list list"
  portmap6 :: "portMapEntry list list"
  translationTable :: "table list"

record portPair =
  PrivatePort :: ipPort
  PublicPort :: ipPort
  lastport :: int

record Config =
  HostName :: string
  PortPairs :: "portPair list"
  setKniIP :: bool
  bringUpKniInterfaces :: bool

text \<open>The package-level variables that \<open>ReadConfig\<close> writes.\<close>

record globals =
  Natconfig :: "Config option"
  NeedKNI :: bool
  NeedDHCP :: bool

section \<open>Constants\<close>

definition Second :: Duration where
  "Second = 1000000000"

definition Minute :: Duration where
  "Minute = 60 * Second"

definition connectionTimeout :: Duration where
  "connectionTimeout = 1 * Minute"

definition portReuseTimeout :: Duration where
  "portReuseTimeout = 1 * Second"

definition portReuseSetLastusedTime :: Duration where
  "portReuseSetLastusedTime = portReuseTimeout - connectionTimeout"

definition zeroIPv6Addr :: IPv6Address where
  "zeroIPv6Addr = replicate 16 0"

definition zeroMACAddress :: MACAddress where
  "zeroMACAddress = replicate 6 0"

text \<open>\<open>Time.Add\<close> on a time counted in nanoseconds: the duration is a signed 64-bit value.\<close>

definition time_Add :: "int \<Rightarrow> Duration \<Rightarrow> int" where
  "time_Add t d = t + sint d"

text \<open>
  Modelled from the spec: the reclaim test of the port allocator, which is not part of
  config.go. Section 4.5: a slot is eligible for (re)allocation if it is not marked static
  and \<open>now - lastActivity >= reclaimThreshold\<close>, the threshold being the idle timeout.
\<close>

definition eligible :: "int \<Rightarrow> portMapEntry \<Rightarrow> bool" where
  "eligible now e \<longleftrightarrow> \<not> static e \<and> now - lastused e \<ge> sint connectionTimeout"

text \<open>The protocol numbers of the nff-go \<open>types\<close> package (the IANA numbers).\<close>

definition ICMPNumber :: "8 word" where "ICMPNumber = 1"
definition TCPNumber :: "8 word" where "TCPNumber = 6"
definition UDPNumber :: "8 word" where "UDPNumber = 17"
definition ICMPv6Number :: "8 word" where "ICMPv6Number = 58"

definition protocolIdLookup :: "string \<rightharpoonup> protocolId" where
  "protocolIdLookup =
     [''TCP'' \<mapsto> \<lparr>id_p = TCPNumber, ipv6_p = False\<rparr>,
      ''UDP'' \<mapsto> \<lparr>id_p = UDPNumber, ipv6_p = False\<rparr>,
      ''TCP6'' \<mapsto> \<lparr>id_p = TCPNumber, ipv6_p = True\<rparr>,
      ''UDP6'' \<mapsto> \<lparr>id_p = UDPNumber, ipv6_p = True\<rparr>]"

text \<open>
  \<open>protocolId.UnmarshalJSON\<close>. The first argument is what \<open>json.Unmarshal\<close> made of
  the bytes: an error or the string.
\<close>

definition protocolId_UnmarshalJSON :: "error + string \<Rightarrow> error + protocolId" where
  "protocolId_UnmarshalJSON js =
     (case js of
        Inl e \<Rightarrow> Inl e
      | Inr s \<Rightarrow>
          (case protocolIdLookup s of
             None \<Rightarrow> Inl (BadProtocolName s)
           | Some result \<Rightarrow> Inr result))"

section \<open>Subnets\<close>

definition checkAddrWithingSubnet :: "ipv4Subnet \<Rightarrow> IPv4Address \<Rightarrow> bool" where
  "checkAddrWithingSubnet subnet a \<longleftrightarrow> a AND Mask subnet = Addr subnet AND Mask subnet"

text \<open>The loop \<open>for i := range addr\<close> runs over the 16 indices of the array.\<close>

definition andMask :: "ipv6Subnet \<Rightarrow> IPv6Address \<Rightarrow> IPv6Address" where
  "andMask subnet a = map (\<lambda>i. a ! i AND Mask_v6 subnet ! i) [0..<16]"

definition checkAddrWithingSubnet6 :: "ipv6Subnet \<Rightarrow> IPv6Address \<Rightarrow> bool" where
  "checkAddrWithingSubnet6 subnet a \<longleftrightarrow> andMask subnet a = andMask subnet (Addr_v6 subnet)"

section \<open>Parsing addresses\<close>

text \<open>
  \<open>types.BytesToIPv4\<close> of nff-go: the first argument is the least significant byte.
\<close>

definition BytesToIPv4 :: "8 word \<Rightarrow> 8 word \<Rightarrow> 8 word \<Rightarrow> 8 word \<Rightarrow> IPv4Address" where
  "BytesToIPv4 a b c d =
     push_bit 24 (ucast d) OR push_bit 16 (ucast c) OR push_bit 8 (ucast b) OR ucast a"

text \<open>
  \<open>convertIPv4\<close>. The guard lets every slice of at most four bytes through; the
  arguments of \<open>BytesToIPv4\<close> are evaluated from the left, so \<open>in[3]\<close> is read first
  and panics on a slice shorter than four bytes.
\<close>

definition convertIPv4 :: "8 word list option \<Rightarrow> error + IPv4Address" where
  "convertIPv4 inp =
     (case inp of
        None \<Rightarrow> Inl (OnlyIPv4Supported 0)
      | Some bs \<Rightarrow>
          if length bs > 4 then Inl (OnlyIPv4Supported (length bs))
          else if \<not> 3 < length bs then Inl (PanicIndexOutOfRange 3 (length bs))
          else Inr (BytesToIPv4 (bs ! 3) (bs ! 2) (bs ! 1) (bs ! 0)))"

text \<open>
  \<open>net.IP.To4\<close> and \<open>net.IP.To16\<close> of the Go library: a 4-byte address is IPv4, a
  16-byte address is IPv4 when it carries the prefix of ten zero bytes and two \<open>0xff\<close>
  bytes; anything else has no 4-byte form, and only 4 and 16 bytes have a 16-byte form.
\<close>

definition v4InV6Prefix :: "8 word list" where
  "v4InV6Prefix = [0, 0, 0, 0, 0, 0, 0, 0, 0, 0, 255, 255]"

definition To4 :: "8 word list \<Rightarrow> 8 word list option" where
  "To4 ip =
     (if length ip = 4 then Some ip
      else if length ip = 16 \<and> take 12 ip = v4InV6Prefix then Some (drop 12 ip)
      else None)"

definition To16 :: "8 word list \<Rightarrow> 8 word list option" where
  "To16 ip =
     (if length ip = 4 then Some (v4InV6Prefix @ ip)
      else if length ip = 16 then Some ip
      else None)"

text \<open>The built-in \<open>copy(dst, src)\<close>: the first \<open>min (len dst) (len src)\<close> elements.\<close>

definition copy :: "'a list \<Rightarrow> 'a list \<Rightarrow> 'a list" where
  "copy dst src = take (length dst) src @ drop (length src) dst"

text \<open>
  \<open>ipv4Subnet.UnmarshalJSON\<close>. \<open>js\<close> is what \<open>json.Unmarshal\<close> made of the
  bytes, \<open>cidr\<close> the address and mask that \<open>net.ParseCIDR\<close> returns for the string
  (\<open>None\<close> when it fails) and \<open>pip\<close> the address that \<open>net.ParseIP\<close> returns
  (\<open>None\<close> for \<open>nil\<close>). The result is the error or the receiver as the call leaves it.
\<close>

definition ipv4Subnet_UnmarshalJSON ::
  "error + string \<Rightarrow> (8 word list \<times> 8 word list) option \<Rightarrow> 8 word list option \<Rightarrow>
   ipv4Subnet \<Rightarrow> error + ipv4Subnet" where
  "ipv4Subnet_UnmarshalJSON js cidr pip out =
     (case js of
        Inl e \<Rightarrow> Inl e
      | Inr s \<Rightarrow>
          if s = ''dhcp'' then Inr (out\<lparr>Addr := 0, Mask := 0, addressAcquired := False\<rparr>)
          else
            (case cidr of
               Some (ip, msk) \<Rightarrow>
                 (case convertIPv4 (To4 ip) of
                    Inl e \<Rightarrow> Inl e
                  | Inr a \<Rightarrow>
                      (case convertIPv4 (Some msk) of
                         Inl e \<Rightarrow> Inl e
                       | Inr m \<Rightarrow> Inr (out\<lparr>Addr := a, Mask := m, addressAcquired := True\<rparr>)))
             | None \<Rightarrow>
                 (case pip of
                    Some ip \<Rightarrow>
                      (case convertIPv4 (To4 ip) of
                         Inl e \<Rightarrow> Inl e
                       | Inr a \<Rightarrow>
                           Inr (out\<lparr>Addr := a, Mask := 0xffffffff, addressAcquired := True\<rparr>))
                  | None \<Rightarrow> Inl (FailedToParseAddress s))))"

definition ipv6Subnet_UnmarshalJSON ::
  "error + string \<Rightarrow> (8 word list \<times> 8 word list) option \<Rightarrow> 8 word list option \<Rightarrow>
   ipv6Subnet \<Rightarrow> error + ipv6Subnet" where
  "ipv6Subnet_UnmarshalJSON js cidr pip out =
     (case js of
        Inl e \<Rightarrow> Inl e
      | Inr s \<Rightarrow>
          if s = ''dhcp'' then
            Inr (out\<lparr>Addr_v6 := zeroIPv6Addr, Mask_v6 := zeroIPv6Addr,
                     addressAcquired_v6 := False\<rparr>)
          else
            (case cidr of
               Some (ip, msk) \<Rightarrow>
                 (case To16 ip of
                    None \<Rightarrow> Inl (BadIPv6Address s)
                  | Some ip16 \<Rightarrow>
                      Inr (out\<lparr>Addr_v6 := copy (Addr_v6 out) ip16,
                               Mask_v6 := copy (Mask_v6 out) msk,
                               addressAcquired_v6 := True\<rparr>))
             | None \<Rightarrow>
                 (case pip of
                    Some ip \<Rightarrow>
                      (case To16 ip of
                         None \<Rightarrow> Inl (BadIPv6Address s)
                       | Some ip16 \<Rightarrow>
                           Inr (out\<lparr>Addr_v6 := copy (Addr_v6 out) ip16,
                                    Mask_v6 := replicate 16 255,
                                    addressAcquired_v6 := True\<rparr>))
                  | None \<Rightarrow> Inl (FailedToParseAddress s))))"

section \<open>Validation of the configuration\<close>

text \<open>
  \<open>checkPortForwarding\<close>: \<open>p\<close> is the interface owning the rule, \<open>opp\<close> the
  interface \<open>p.opposite\<close> points to. The call may set the global \<open>NeedKNI\<close> and
  may write the destination port of the rule, so it returns the rule and the flag; both
  writes come after the last error return. \<open>isAddrZero\<close> is the local variable of
  that name, \<open>defaulted\<close> the rule after the assignment that closes the function.
\<close>

definition isAddrZero :: "forwardedPort \<Rightarrow> bool" where
  "isAddrZero fp \<longleftrightarrow>
     (if ipv6_h (Destination fp) then Addr6 (Destination fp) = zeroIPv6Addr
      else Addr4 (Destination fp) = 0)"

definition checkPortForwarding ::
  "ipPort \<Rightarrow> ipPort \<Rightarrow> forwardedPort \<Rightarrow> bool \<Rightarrow> error + (forwardedPort \<times> bool)" where
  "checkPortForwarding p opp fp needKNI =
     (if ipv6_h (Destination fp) \<noteq> ipv6_p (Protocol fp) then Inl ProtocolFamilyMismatch
      else
        let defaulted =
              (if Port_h (Destination fp) = 0
               then fp\<lparr>Destination := (Destination fp)\<lparr>Port_h := Port fp\<rparr>\<rparr>
               else fp)
        in
          if isAddrZero fp then
            if KNIName p = [] then Inl (KniNameRequired (Index p))
            else if Port_h (Destination fp) \<noteq> Port fp
              then Inl (KniPortsDiffer (Port fp) (Port_h (Destination fp)))
            else Inr (fp, True)
          else if Type p = iPRIVATE then Inl OnlyKniForwardingOnPrivate
          else if ipv6_h (Destination fp) then
            if \<not> checkAddrWithingSubnet6 (Subnet6 opp) (Addr6 (Destination fp))
              then Inl (DestinationOutsideSubnet6 (Addr6 (Destination fp)))
            else Inr (defaulted, needKNI)
          else
            if \<not> checkAddrWithingSubnet (Subnet opp) (Addr4 (Destination fp))
              then Inl (DestinationOutsideSubnet4 (Addr4 (Destination fp)))
            else Inr (defaulted, needKNI))"

text \<open>
  The loop \<open>for fpi := range port.ForwardPorts\<close> of \<open>ReadConfig\<close>. It stops at the
  first error; the rules checked before keep what the check wrote into them.
\<close>

fun checkForwardPorts ::
  "ipPort \<Rightarrow> ipPort \<Rightarrow> forwardedPort list \<Rightarrow> bool \<Rightarrow> error option \<times> forwardedPort list \<times> bool" where
  "checkForwardPorts p opp [] needKNI = (None, [], needKNI)"
| "checkForwardPorts p opp (fp # fps) needKNI =
     (case checkPortForwarding p opp fp needKNI of
        Inl e \<Rightarrow> (Some e, fp # fps, needKNI)
      | Inr (fp', needKNI') \<Rightarrow>
          (case checkForwardPorts p opp fps needKNI' of
             (r, fps', needKNI'') \<Rightarrow> (r, fp' # fps', needKNI'')))"

text \<open>
  One round of the loop \<open>for pi := 0; pi < 2; pi++\<close>: the checks of one interface.
  The result is the error, if any, the interface and the globals as the round leaves them.
\<close>

definition readPort :: "string \<Rightarrow> ipPort \<Rightarrow> ipPort \<Rightarrow> globals \<Rightarrow> error option \<times> ipPort \<times> globals" where
  "readPort hostName p opp g =
     (if \<not> addressAcquired (Subnet p) \<and> hostName = [] then
        (Some (DhcpRequiresHostName (Index p)), p, g)
      else
        let g1 = (if \<not> addressAcquired (Subnet p) then g\<lparr>NeedDHCP := True\<rparr> else g);
            g2 = (if KNIName p \<noteq> [] then g1\<lparr>NeedKNI := True\<rparr> else g1)
        in
          (case checkForwardPorts p opp (ForwardPorts p) (NeedKNI g2) of
             (Some e, fps, needKNI) \<Rightarrow>
               (Some e, p\<lparr>ForwardPorts := fps\<rparr>, g2\<lparr>NeedKNI := needKNI\<rparr>)
           | (None, fps, needKNI) \<Rightarrow>
               (None,
                p\<lparr>ForwardPorts := fps,
                  staticArpMode :=
                    (if DstMACAddress p \<noteq> zeroMACAddress then True else staticArpMode p)\<rparr>,
                g2\<lparr>NeedKNI := needKNI\<rparr>)))"

text \<open>
  The body of the loop over \<open>Natconfig.PortPairs\<close>: the interface types are set, the
  VLAN checks run, then the private interface and the public interface are checked in
  this order. The third check is written as the source has it: both sides of its
  disjunction read the private interface.
\<close>

definition readPair :: "string \<Rightarrow> portPair \<Rightarrow> globals \<Rightarrow> error option \<times> portPair \<times> globals" where
  "readPair hostName pp0 g =
     (let pp = pp0\<lparr>PrivatePort := (PrivatePort pp0)\<lparr>Type := iPRIVATE\<rparr>,
                   PublicPort := (PublicPort pp0)\<lparr>Type := iPUBLIC\<rparr>\<rparr>
      in
        if Vlan (PrivatePort pp) = 0 \<and> Vlan (PublicPort pp) \<noteq> 0 then
          (Some (VlanPrivateZeroPublicNonzero (Index (PrivatePort pp)) (Index (PublicPort pp))),
           pp, g)
        else if Vlan (PrivatePort pp) \<noteq> 0 \<and> Vlan (PublicPort pp) = 0 then
          (Some (VlanPrivateNonzeroPublicZero (Index (PrivatePort pp)) (Index (PublicPort pp))),
           pp, g)
        else if (Vlan (PrivatePort pp) \<noteq> 0 \<and> KNIName (PrivatePort pp) \<noteq> []) \<or>
                (Vlan (PrivatePort pp) \<noteq> 0 \<and> KNIName (PrivatePort pp) \<noteq> []) then
          (Some VlanTogetherWithKNI, pp, g)
        else
          (case readPort hostName (PrivatePort pp) (PublicPort pp) g of
             (Some e, priv, g') \<Rightarrow> (Some e, pp\<lparr>PrivatePort := priv\<rparr>, g')
           | (None, priv, g') \<Rightarrow>
               (case readPort hostName (PublicPort pp) priv g' of
                  (r, pub, g'') \<Rightarrow> (r, pp\<lparr>PrivatePort := priv, PublicPort := pub\<rparr>, g''))))"

fun readPairs :: "string \<Rightarrow> portPair list \<Rightarrow> globals \<Rightarrow> error option \<times> portPair list \<times> globals" where
  "readPairs hostName [] g = (None, [], g)"
| "readPairs hostName (pp # pps) g =
     (case readPair hostName pp g of
        (Some e, pp', g') \<Rightarrow> (Some e, pp' # pps, g')
      | (None, pp', g') \<Rightarrow>
          (case readPairs hostName pps g' of
             (r, pps', g'') \<Rightarrow> (r, pp' # pps', g'')))"

text \<open>
  What opening the file and decoding its JSON into \<open>Natconfig\<close> gave, the part of
  \<open>ReadConfig\<close> that the file system and the JSON decoder decide: \<open>os.Open\<close>
  failed, and \<open>Natconfig\<close> is untouched; or \<open>Decode\<close> failed, and
  \<open>Natconfig\<close> holds what the decoder had written up to the error; or \<open>Decode\<close>
  succeeded, and \<open>Natconfig\<close> points to the decoded configuration, or is \<open>nil\<close>
  when the file holds the JSON value \<open>null\<close>.
\<close>

datatype fileResult =
    OpenFailed error
  | DecodeFailed error "Config option"
  | Decoded "Config option"

text \<open>
  \<open>ReadConfig\<close>. The result is the returned error (\<open>None\<close> for \<open>nil\<close>) and
  the package-level variables after the call; the pairs are checked in place, so
  \<open>Natconfig\<close> holds what the checks wrote, also when the call fails. With a
  \<open>nil\<close> \<open>Natconfig\<close> the first read of one of its fields panics.
\<close>

definition ReadConfig :: "fileResult \<Rightarrow> bool \<Rightarrow> bool \<Rightarrow> globals \<Rightarrow> error option \<times> globals" where
  "ReadConfig file setKni bringUp g =
     (case file of
        OpenFailed e \<Rightarrow> (Some e, g)
      | DecodeFailed e left \<Rightarrow> (Some e, g\<lparr>Natconfig := left\<rparr>)
      | Decoded None \<Rightarrow> (Some PanicNilDereference, g\<lparr>Natconfig := None\<rparr>)
      | Decoded (Some cfg0) \<Rightarrow>
          let cfg1 = (if setKni then cfg0\<lparr>setKniIP := True\<rparr> else cfg0);
              cfg2 = (if bringUp then cfg1\<lparr>bringUpKniInterfaces := True\<rparr> else cfg1)
          in
            (case readPairs (HostName cfg2) (PortPairs cfg2) (g\<lparr>Natconfig := Some cfg2\<rparr>) of
               (r, pps, g') \<Rightarrow> (r, g'\<lparr>Natconfig := Some (cfg2\<lparr>PortPairs := pps\<rparr>)\<rparr>)))"

section \<open>Static port forwarding\<close>

text \<open>
  The slot arrays and the lookup tables. \<open>portEnd\<close> is a constant of the package that
  config.go does not define; it is an argument here. \<open>make\<close> gives a slice of zero
  values: an empty (nil) slice for each protocol, a zero entry for each port.
\<close>

definition zeroPortMapEntry :: portMapEntry where
  "zeroPortMapEntry = \<lparr>lastused = 0, finCount = 0, terminationDirection = 0, static = False\<rparr>"

definition allocatePublicPortPortMap :: "nat \<Rightarrow> ipPort \<Rightarrow> ipPort" where
  "allocatePublicPortPortMap portEnd p =
     p\<lparr>portmap := (replicate 256 [])
           [unat ICMPNumber := replicate portEnd zeroPortMapEntry,
            unat TCPNumber := replicate portEnd zeroPortMapEntry,
            unat UDPNumber := replicate portEnd zeroPortMapEntry],
       portmap6 := (replicate 256 [])
           [unat TCPNumber := replicate portEnd zeroPortMapEntry,
            unat UDPNumber := replicate portEnd zeroPortMapEntry,
            unat ICMPv6Number := replicate portEnd zeroPortMapEntry]\<rparr>"

definition allocateLookupMap :: "ipPort \<Rightarrow> ipPort" where
  "allocateLookupMap p = p\<lparr>translationTable := replicate 256 Map.empty\<rparr>"

text \<open>\<open>tt[protocol].Store(k, v)\<close>: indexing the slice of tables panics outside it.\<close>

definition Store :: "table list \<Rightarrow> 8 word \<Rightarrow> tuple \<Rightarrow> tuple \<Rightarrow> error + table list" where
  "Store tt protocol k v =
     (if unat protocol < length tt
      then Inr (tt[unat protocol := (tt ! unat protocol)(k \<mapsto> v)])
      else Inl (PanicIndexOutOfRange (unat protocol) (length tt)))"

definition getPortmap :: "ipPort \<Rightarrow> bool \<Rightarrow> 8 word \<Rightarrow> error + portMapEntry list" where
  "getPortmap p ipv6 protocol =
     (if ipv6 then
        (if unat protocol < length (portmap6 p) then Inr (portmap6 p ! unat protocol)
         else Inl (PanicIndexOutOfRange (unat protocol) (length (portmap6 p))))
      else
        (if unat protocol < length (portmap p) then Inr (portmap p ! unat protocol)
         else Inl (PanicIndexOutOfRange (unat protocol) (length (portmap p)))))"

text \<open>
  The assignment \<open>port.getPortmap(ipv6, protocol)[fpPort] = entry\<close>: the slice returned
  shares its array with the port map, so the write lands in the port map of the
  interface; it panics when the slice has no element \<open>fpPort\<close>.
\<close>

definition setPortmapEntry ::
  "ipPort \<Rightarrow> bool \<Rightarrow> 8 word \<Rightarrow> 16 word \<Rightarrow> portMapEntry \<Rightarrow> error + ipPort" where
  "setPortmapEntry p ipv6 protocol fpPort entry =
     (case getPortmap p ipv6 protocol of
        Inl e \<Rightarrow> Inl e
      | Inr slots \<Rightarrow>
          if unat fpPort < length slots then
            (if ipv6
             then Inr (p\<lparr>portmap6 := (portmap6 p)[unat protocol := slots[unat fpPort := entry]]\<rparr>)
             else Inr (p\<lparr>portmap := (portmap p)[unat protocol := slots[unat fpPort := entry]]\<rparr>))
          else Inl (PanicIndexOutOfRange (unat fpPort) (length slots)))"

text \<open>
  \<open>enableStaticPortForward\<close>: \<open>now\<close> is the value of \<open>time.Now()\<close>. The call
  writes to the interface and to its opposite and returns both, or the panic.
\<close>

definition enableStaticPortForward ::
  "int \<Rightarrow> ipPort \<Rightarrow> ipPort \<Rightarrow> forwardedPort \<Rightarrow> error + (ipPort \<times> ipPort)" where
  "enableStaticPortForward now p opp fp =
     (let keyEntry =
            (if ipv6_p (Protocol fp) then Tuple6 (Addr_v6 (Subnet6 p)) (Port fp)
             else Tuple (Addr (Subnet p)) (Port fp));
          valEntry =
            (if ipv6_p (Protocol fp)
             then Tuple6 (Addr6 (Destination fp)) (Port_h (Destination fp))
             else Tuple (Addr4 (Destination fp)) (Port_h (Destination fp)));
          dstNonZero =
            (if ipv6_p (Protocol fp) then Addr6 (Destination fp) \<noteq> zeroIPv6Addr
             else Addr4 (Destination fp) \<noteq> 0)
      in
        (case Store (translationTable p) (id_p (Protocol fp)) keyEntry valEntry of
           Inl e \<Rightarrow> Inl e
         | Inr tt \<Rightarrow>
             (case (if dstNonZero
                    then Store (translationTable opp) (id_p (Protocol fp)) valEntry keyEntry
                    else Inr (translationTable opp)) of
                Inl e \<Rightarrow> Inl e
              | Inr ott \<Rightarrow>
                  if Type p = iPUBLIC then
                    (case setPortmapEntry (p\<lparr>translationTable := tt\<rparr>)
                            (ipv6_p (Protocol fp)) (id_p (Protocol fp)) (Port fp)
                            \<lparr>lastused = now, finCount = 0, terminationDirection = 0,
                             static = True\<rparr> of
                       Inl e \<Rightarrow> Inl e
                     | Inr p' \<Rightarrow> Inr (p', opp\<lparr>translationTable := ott\<rparr>))
                  else Inr (p\<lparr>translationTable := tt\<rparr>, opp\<lparr>translationTable := ott\<rparr>))))"

text \<open>\<open>initPortPortForwardingEntries\<close>: the rules of the interface, in order.\<close>

fun enableAll :: "int \<Rightarrow> ipPort \<Rightarrow> ipPort \<Rightarrow> forwardedPort list \<Rightarrow> error + (ipPort \<times> ipPort)" where
  "enableAll now p opp [] = Inr (p, opp)"
| "enableAll now p opp (fp # fps) =
     (case enableStaticPortForward now p opp fp of
        Inl e \<Rightarrow> Inl e
      | Inr (p', opp') \<Rightarrow> enableAll now p' opp' fps)"

definition initPortPortForwardingEntries :: "int \<Rightarrow> ipPort \<Rightarrow> ipPort \<Rightarrow> error + (ipPort \<times> ipPort)" where
  "initPortPortForwardingEntries now p opp = enableAll now p opp (ForwardPorts p)"

section \<open>Subnet containment\<close>

lemma andMask_map2:
  "length a = 16 \<Longrightarrow> length (Mask_v6 s) = 16 \<Longrightarrow> andMask s a = map2 (AND) a (Mask_v6 s)"
  by (simp add: andMask_def list_eq_iff_nth_eq)

lemma andMask_idem:
  "length a = 16 \<Longrightarrow> length (Mask_v6 s) = 16 \<Longrightarrow> andMask s (andMask s a) = andMask s a"
  by (simp add: andMask_def list_eq_iff_nth_eq)

lemma andMask_broadcast:
  "length a = 16 \<Longrightarrow> length (Mask_v6 s) = 16 \<Longrightarrow>
   andMask s (map2 (OR) a (map NOT (Mask_v6 s))) = andMask s a"
  by (simp add: andMask_def list_eq_iff_nth_eq bit.conj_disj_distrib2)

text \<open>
  Claim C1. An IPv4 address \<open>a\<close> is within the subnet \<open>s\<close> exactly when
  \<open>a & s.Mask == s.Addr & s.Mask\<close>; an IPv6 address \<open>b\<close> is within the subnet
  \<open>t\<close> exactly when the bytewise AND of \<open>b\<close> with the mask equals the bytewise
  AND of the subnet's address with the mask. This holds for every address: the network
  address (address AND mask) and the all-ones broadcast address (address OR the
  complement of the mask) are within the subnet. The IPv6 values are arrays of 16 bytes.
\<close>

theorem subnet_containment_masked:
  "(checkAddrWithingSubnet s a \<longleftrightarrow> a AND Mask s = Addr s AND Mask s)
   \<and> checkAddrWithingSubnet s (Addr s AND Mask s)
   \<and> checkAddrWithingSubnet s (Addr s OR NOT (Mask s))
   \<and> (length b = 16 \<and> length (Addr_v6 t) = 16 \<and> length (Mask_v6 t) = 16 \<longrightarrow>
        (checkAddrWithingSubnet6 t b \<longleftrightarrow>
           map2 (AND) b (Mask_v6 t) = map2 (AND) (Addr_v6 t) (Mask_v6 t))
        \<and> checkAddrWithingSubnet6 t (map2 (AND) (Addr_v6 t) (Mask_v6 t))
        \<and> checkAddrWithingSubnet6 t (map2 (OR) (Addr_v6 t) (map NOT (Mask_v6 t))))"
proof -
  have v4: "checkAddrWithingSubnet s a \<longleftrightarrow> a AND Mask s = Addr s AND Mask s"
    by (simp add: checkAddrWithingSubnet_def)
  have net4: "checkAddrWithingSubnet s (Addr s AND Mask s)"
    by (simp add: checkAddrWithingSubnet_def and.assoc)
  have bc4: "checkAddrWithingSubnet s (Addr s OR NOT (Mask s))"
    by (simp add: checkAddrWithingSubnet_def bit.conj_disj_distrib2)
  have v6: "(checkAddrWithingSubnet6 t b \<longleftrightarrow>
           map2 (AND) b (Mask_v6 t) = map2 (AND) (Addr_v6 t) (Mask_v6 t))
        \<and> checkAddrWithingSubnet6 t (map2 (AND) (Addr_v6 t) (Mask_v6 t))
        \<and> checkAddrWithingSubnet6 t (map2 (OR) (Addr_v6 t) (map NOT (Mask_v6 t)))"
    if len: "length b = 16" "length (Addr_v6 t) = 16" "length (Mask_v6 t) = 16"
  proof -
    have 1: "checkAddrWithingSubnet6 t b \<longleftrightarrow>
           map2 (AND) b (Mask_v6 t) = map2 (AND) (Addr_v6 t) (Mask_v6 t)"
      using len by (simp add: checkAddrWithingSubnet6_def andMask_map2)
    have 2: "checkAddrWithingSubnet6 t (map2 (AND) (Addr_v6 t) (Mask_v6 t))"
      using len andMask_idem [of "Addr_v6 t" t]
      by (simp add: checkAddrWithingSubnet6_def andMask_map2 [symmetric])
    have 3: "checkAddrWithingSubnet6 t (map2 (OR) (Addr_v6 t) (map NOT (Mask_v6 t)))"
      using len by (simp add: checkAddrWithingSubnet6_def andMask_broadcast)
    from 1 2 3 show ?thesis by blast
  qed
  from v4 net4 bc4 v6 show ?thesis by blast
qed

text \<open>
  The subnet 2001:db8::1/64 contains 2001:db8::ffff:ffff:ffff:ffff, the last address of
  its range.
\<close>

theorem subnet_containment_masked_witness:
  "checkAddrWithingSubnet6
     \<lparr>Addr_v6 = [0x20, 0x01, 0x0d, 0xb8, 0, 0, 0, 0, 0, 0, 0, 0, 0, 0, 0, 1],
      multicastAddr = replicate 16 0,
      Mask_v6 = [255, 255, 255, 255, 255, 255, 255, 255, 0, 0, 0, 0, 0, 0, 0, 0],
      llAddr = replicate 16 0, llMulticastAddr = replicate 16 0,
      addressAcquired_v6 = True, kniAddressSet_v6 = False\<rparr>
     [0x20, 0x01, 0x0d, 0xb8, 0, 0, 0, 0, 0xff, 0xff, 0xff, 0xff, 0xff, 0xff, 0xff, 0xff]"
  using subnet_containment_masked [where t =
     "\<lparr>Addr_v6 = [0x20, 0x01, 0x0d, 0xb8, 0, 0, 0, 0, 0, 0, 0, 0, 0, 0, 0, 1],
      multicastAddr = replicate 16 0,
      Mask_v6 = [255, 255, 255, 255, 255, 255, 255, 255, 0, 0, 0, 0, 0, 0, 0, 0],
      llAddr = replicate 16 0, llMulticastAddr = replicate 16 0,
      addressAcquired_v6 = True, kniAddressSet_v6 = False\<rparr>"
     and b = "[0x20, 0x01, 0x0d, 0xb8, 0, 0, 0, 0, 0xff, 0xff, 0xff, 0xff, 0xff, 0xff, 0xff, 0xff]"]
  by simp

section \<open>Address conversion\<close>

lemma convertIPv4_error_iff:
  "(\<exists>n. convertIPv4 inp = Inl (OnlyIPv4Supported n)) \<longleftrightarrow>
   (inp = None \<or> (\<exists>bs. inp = Some bs \<and> length bs > 4))"
  by (auto simp: convertIPv4_def split: option.splits)

lemma convertIPv4_four_bytes:
  "convertIPv4 (Some [b0, b1, b2, b3]) = Inr (BytesToIPv4 b3 b2 b1 b0)"
  by (simp add: convertIPv4_def)

text \<open>
  Claim C10 says that \<open>convertIPv4\<close> returns an error exactly for a nil slice or one
  longer than four bytes and that every other input is converted without indexing outside
  the slice. The guard \<open>len(in) > 4\<close> lets the shorter slices through: on the two-byte
  slice \<open>[1, 2]\<close> the read of \<open>in[3]\<close> panics with an index out of range.
\<close>

theorem convertIPv4_short_slice_panics:
  "convertIPv4 (Some [1, 2]) = Inl (PanicIndexOutOfRange 3 2)"
  by (simp add: convertIPv4_def)

section \<open>Timeouts\<close>

lemma sint_portReuseSetLastusedTime: "sint portReuseSetLastusedTime = - 59000000000"
  by (simp add: portReuseSetLastusedTime_def portReuseTimeout_def connectionTimeout_def
      Minute_def Second_def)

lemma sint_connectionTimeout: "sint connectionTimeout = 60000000000"
  by (simp add: connectionTimeout_def Minute_def Second_def)

lemma sint_portReuseTimeout: "sint portReuseTimeout = 1000000000"
  by (simp add: portReuseTimeout_def Second_def)

text \<open>
  Claim C8. The idle timeout is one minute and the close-reuse timeout one second, in
  nanoseconds; \<open>portReuseSetLastusedTime\<close> is their difference
  \<open>portReuseTimeout - connectionTimeout\<close>, minus 59 seconds, with no wrap-around in 64
  bits. Adding it to a time \<open>t\<close> gives \<open>t\<close> moved earlier by
  \<open>connectionTimeout - portReuseTimeout\<close>, and a slot that is not static and whose
  last-used time was set so at the moment \<open>t\<close> of the full close is eligible for
  reclaim exactly from \<open>t + portReuseTimeout\<close> on.
\<close>

theorem portReuseSetLastusedTime_backdates:
  "sint connectionTimeout = 60 * 1000000000
   \<and> sint portReuseTimeout = 1000000000
   \<and> sint portReuseSetLastusedTime = sint portReuseTimeout - sint connectionTimeout
   \<and> sint portReuseSetLastusedTime = - 59 * 1000000000
   \<and> time_Add t portReuseSetLastusedTime = t - (sint connectionTimeout - sint portReuseTimeout)
   \<and> (eligible now (e\<lparr>static := False, lastused := time_Add t portReuseSetLastusedTime\<rparr>)
        \<longleftrightarrow> now - t \<ge> sint portReuseTimeout)"
  by (simp add: sint_portReuseSetLastusedTime sint_connectionTimeout sint_portReuseTimeout
      time_Add_def eligible_def)

section \<open>Loading a configuration\<close>

subsection \<open>Files that do not give a configuration\<close>

lemma ReadConfig_open_failed:
  "ReadConfig (OpenFailed e) sk bu g = (Some e, g)"
  by (simp add: ReadConfig_def)

lemma ReadConfig_decode_failed:
  "ReadConfig (DecodeFailed e left) sk bu g = (Some e, g\<lparr>Natconfig := left\<rparr>)"
  by (simp add: ReadConfig_def)

lemma ReadConfig_null_panics:
  "fst (ReadConfig (Decoded None) sk bu g) = Some PanicNilDereference"
  by (simp add: ReadConfig_def)

subsection \<open>The loops stop at the first error\<close>

lemma checkPortForwarding_isl_flag:
  "isl (checkPortForwarding p opp fp k) = isl (checkPortForwarding p opp fp k')"
  by (simp add: checkPortForwarding_def Let_def)

lemma checkPortForwarding_error_flag:
  "checkPortForwarding p opp fp k = Inl e \<Longrightarrow> checkPortForwarding p opp fp k' = Inl e"
  by (simp add: checkPortForwarding_def Let_def split: if_splits)

lemma checkPortForwarding_opp:
  "Subnet opp = Subnet opp' \<Longrightarrow> Subnet6 opp = Subnet6 opp' \<Longrightarrow>
   checkPortForwarding p opp fp k = checkPortForwarding p opp' fp k"
  by (simp add: checkPortForwarding_def)

lemma checkForwardPorts_abort:
  "\<exists>fp\<in>set fps. isl (checkPortForwarding p opp fp k0) \<Longrightarrow>
   checkForwardPorts p opp fps k = (r, fps', k') \<Longrightarrow> r \<noteq> None"
proof (induction fps arbitrary: k r fps' k')
  case Nil
  then show ?case by simp
next
  case (Cons fp fps)
  show ?case
  proof (cases "checkPortForwarding p opp fp k")
    case (Inl e)
    with Cons.prems(2) show ?thesis by auto
  next
    case (Inr x)
    then have "\<not> isl (checkPortForwarding p opp fp k0)"
      using checkPortForwarding_isl_flag [of p opp fp k0 k] by simp
    with Cons.prems(1) have ex: "\<exists>fp\<in>set fps. isl (checkPortForwarding p opp fp k0)" by auto
    obtain fp1 k1 where x: "x = (fp1, k1)" by (cases x)
    obtain r2 fps2 k2 where rest: "checkForwardPorts p opp fps k1 = (r2, fps2, k2)"
      by (cases "checkForwardPorts p opp fps k1") auto
    from Cons.IH [OF ex rest] have "r2 \<noteq> None" .
    with Cons.prems(2) Inr x rest show ?thesis by auto
  qed
qed

lemma find_cong_pred: "(\<And>x. P x = Q x) \<Longrightarrow> find P xs = find Q xs"
  by (induction xs) auto

lemma checkForwardPorts_first:
  "fst (checkForwardPorts p opp fps k) =
   map_option (\<lambda>fp. projl (checkPortForwarding p opp fp k))
     (find (\<lambda>fp. isl (checkPortForwarding p opp fp k)) fps)"
proof (induction fps arbitrary: k)
  case Nil
  then show ?case by simp
next
  case (Cons fp fps)
  show ?case
  proof (cases "checkPortForwarding p opp fp k")
    case (Inl e)
    then show ?thesis by simp
  next
    case (Inr x)
    obtain fp1 k1 where x: "x = (fp1, k1)" by (cases x)
    have find_eq: "find (\<lambda>fp. isl (checkPortForwarding p opp fp k1)) fps =
                   find (\<lambda>fp. isl (checkPortForwarding p opp fp k)) fps"
      by (rule find_cong_pred) (rule checkPortForwarding_isl_flag)
    have projl_eq: "projl (checkPortForwarding p opp y k1) = projl (checkPortForwarding p opp y k)"
      if "isl (checkPortForwarding p opp y k)" for y
      using that checkPortForwarding_error_flag [of p opp y k _ k1]
      by (cases "checkPortForwarding p opp y k") auto
    have "map_option (\<lambda>fp. projl (checkPortForwarding p opp fp k1))
            (find (\<lambda>fp. isl (checkPortForwarding p opp fp k)) fps) =
          map_option (\<lambda>fp. projl (checkPortForwarding p opp fp k))
            (find (\<lambda>fp. isl (checkPortForwarding p opp fp k)) fps)"
    proof (cases "find (\<lambda>fp. isl (checkPortForwarding p opp fp k)) fps")
      case None
      then show ?thesis by simp
    next
      case (Some y)
      then have "isl (checkPortForwarding p opp y k)"
        by (auto simp: find_Some_iff)
      with Some show ?thesis by (simp add: projl_eq)
    qed
    with Cons.IH [of k1] find_eq
    have "fst (checkForwardPorts p opp fps k1) =
          map_option (\<lambda>fp. projl (checkPortForwarding p opp fp k))
            (find (\<lambda>fp. isl (checkPortForwarding p opp fp k)) fps)" by simp
    with Inr x show ?thesis
      by (cases "checkForwardPorts p opp fps k1") auto
  qed
qed

lemma readPort_fields:
  "readPort h p opp g = (r, p', g') \<Longrightarrow>
   Subnet p' = Subnet p \<and> Subnet6 p' = Subnet6 p \<and> Index p' = Index p \<and> Vlan p' = Vlan p \<and>
   Type p' = Type p \<and> KNIName p' = KNIName p"
  by (auto simp: readPort_def Let_def split: if_splits prod.splits option.splits)

lemma readPort_abort:
  assumes "\<exists>fp\<in>set (ForwardPorts p). isl (checkPortForwarding p opp fp k0)"
    and "readPort h p opp g = (r, p', g')"
  shows "r \<noteq> None"
  using assms(2) checkForwardPorts_abort [OF assms(1)]
  by (auto simp: readPort_def Let_def split: if_splits prod.splits option.splits)

lemma readPair_abort_private:
  assumes "\<exists>fp\<in>set (ForwardPorts (PrivatePort pp)).
             isl (checkPortForwarding ((PrivatePort pp)\<lparr>Type := iPRIVATE\<rparr>) (PublicPort pp) fp k0)"
    and "readPair h pp g = (r, pp', g')"
  shows "r \<noteq> None"
proof -
  have "\<exists>fp\<in>set (ForwardPorts ((PrivatePort pp)\<lparr>Type := iPRIVATE\<rparr>)).
          isl (checkPortForwarding ((PrivatePort pp)\<lparr>Type := iPRIVATE\<rparr>)
                 ((PublicPort pp)\<lparr>Type := iPUBLIC\<rparr>) fp k0)"
    using assms(1)
      checkPortForwarding_opp [of "PublicPort pp" "(PublicPort pp)\<lparr>Type := iPUBLIC\<rparr>"]
    by simp
  from readPort_abort [OF this]
  have "fst (readPort h ((PrivatePort pp)\<lparr>Type := iPRIVATE\<rparr>)
               ((PublicPort pp)\<lparr>Type := iPUBLIC\<rparr>) g) \<noteq> None"
    by (metis prod.collapse)
  with assms(2) show ?thesis
    by (auto simp: readPair_def Let_def split: if_splits prod.splits option.splits)
qed

lemma readPair_abort_public:
  assumes "\<exists>fp\<in>set (ForwardPorts (PublicPort pp)).
             isl (checkPortForwarding ((PublicPort pp)\<lparr>Type := iPUBLIC\<rparr>) (PrivatePort pp) fp k0)"
    and "readPair h pp g = (r, pp', g')"
  shows "r \<noteq> None"
proof -
  let ?priv = "(PrivatePort pp)\<lparr>Type := iPRIVATE\<rparr>"
  let ?pub = "(PublicPort pp)\<lparr>Type := iPUBLIC\<rparr>"
  have "r2 \<noteq> None"
    if "readPort h ?priv ?pub g = (r1, priv', g1)" "readPort h ?pub priv' g1 = (r2, pub', g2)"
    for r1 priv' g1 r2 pub' g2
  proof -
    from readPort_fields [OF that(1)] have "Subnet priv' = Subnet (PrivatePort pp)"
      "Subnet6 priv' = Subnet6 (PrivatePort pp)" by simp_all
    then have "\<exists>fp\<in>set (ForwardPorts ?pub). isl (checkPortForwarding ?pub priv' fp k0)"
      using assms(1) checkPortForwarding_opp [of "PrivatePort pp" priv'] by simp
    from readPort_abort [OF this that(2)] show ?thesis .
  qed
  with assms(2) show ?thesis
    by (auto simp: readPair_def Let_def split: if_splits prod.splits option.splits)
qed

lemma readPairs_abort:
  "\<exists>pp\<in>set pps. \<forall>g1. fst (readPair h pp g1) \<noteq> None \<Longrightarrow>
   readPairs h pps g = (r, pps', g') \<Longrightarrow> r \<noteq> None"
proof (induction pps arbitrary: g r pps' g')
  case Nil
  then show ?case by simp
next
  case (Cons pp pps)
  obtain r1 pp1 g1 where one: "readPair h pp g = (r1, pp1, g1)"
    by (cases "readPair h pp g") auto
  show ?case
  proof (cases r1)
    case (Some e)
    with one Cons.prems(2) show ?thesis by auto
  next
    case None
    with one Cons.prems(1) have ex: "\<exists>pp\<in>set pps. \<forall>g1. fst (readPair h pp g1) \<noteq> None"
      by (metis fst_conv set_ConsD)
    obtain r2 pps2 g2 where rest: "readPairs h pps g1 = (r2, pps2, g2)"
      by (cases "readPairs h pps g1") auto
    from Cons.IH [OF ex rest] have "r2 \<noteq> None" .
    with one None rest Cons.prems(2) show ?thesis by auto
  qed
qed

lemma ReadConfig_abort:
  assumes "\<exists>pp\<in>set (PortPairs cfg). \<forall>h g1. fst (readPair h pp g1) \<noteq> None"
  shows "fst (ReadConfig (Decoded (Some cfg)) sk bu g) \<noteq> None"
proof -
  have "r \<noteq> None" if "readPairs h (PortPairs cfg) g1 = (r, pps', g')" for h g1 r pps' g'
    using assms that by (intro readPairs_abort [OF _ that]) blast
  then show ?thesis
    by (auto simp: ReadConfig_def Let_def split: prod.splits)
qed

subsection \<open>Port forwarding rules\<close>

text \<open>
  Claim C2. \<open>checkPortForwarding\<close> returns an error for a rule whose destination and
  protocol differ in address family, for a rule on a PRIVATE interface with a non-zero
  destination address, for a rule whose non-zero destination address is outside the
  subnet of the opposite interface, and for a rule with the unspecified destination
  address on an interface without a KNI name. The loop over the rules of an interface
  returns the error of the first rule that the check rejects, and \<open>ReadConfig\<close>
  returns an error whenever some rule of some interface of some pair is rejected.
\<close>

theorem port_forwarding_rejections:
  "(ipv6_h (Destination fp) \<noteq> ipv6_p (Protocol fp) \<longrightarrow>
      isl (checkPortForwarding p opp fp k))
   \<and> (Type p = iPRIVATE \<and> \<not> isAddrZero fp \<longrightarrow> isl (checkPortForwarding p opp fp k))
   \<and> (\<not> isAddrZero fp \<and>
        (if ipv6_h (Destination fp)
         then \<not> checkAddrWithingSubnet6 (Subnet6 opp) (Addr6 (Destination fp))
         else \<not> checkAddrWithingSubnet (Subnet opp) (Addr4 (Destination fp))) \<longrightarrow>
      isl (checkPortForwarding p opp fp k))
   \<and> (isAddrZero fp \<and> KNIName p = [] \<longrightarrow> isl (checkPortForwarding p opp fp k))
   \<and> fst (checkForwardPorts p opp fps k) =
       map_option (\<lambda>fp. projl (checkPortForwarding p opp fp k))
         (find (\<lambda>fp. isl (checkPortForwarding p opp fp k)) fps)
   \<and> (pp \<in> set (PortPairs cfg) \<and>
        ((\<exists>fp\<in>set (ForwardPorts (PrivatePort pp)).
            isl (checkPortForwarding ((PrivatePort pp)\<lparr>Type := iPRIVATE\<rparr>) (PublicPort pp) fp k)) \<or>
         (\<exists>fp\<in>set (ForwardPorts (PublicPort pp)).
            isl (checkPortForwarding ((PublicPort pp)\<lparr>Type := iPUBLIC\<rparr>) (PrivatePort pp) fp k))) \<longrightarrow>
      fst (ReadConfig (Decoded (Some cfg)) sk bu g) \<noteq> None)"
proof -
  have c_family: "ipv6_h (Destination fp) \<noteq> ipv6_p (Protocol fp) \<longrightarrow>
      isl (checkPortForwarding p opp fp k)"
    by (simp add: checkPortForwarding_def)
  have c_private: "Type p = iPRIVATE \<and> \<not> isAddrZero fp \<longrightarrow> isl (checkPortForwarding p opp fp k)"
    by (simp add: checkPortForwarding_def Let_def)
  have c_outside: "\<not> isAddrZero fp \<and>
        (if ipv6_h (Destination fp)
         then \<not> checkAddrWithingSubnet6 (Subnet6 opp) (Addr6 (Destination fp))
         else \<not> checkAddrWithingSubnet (Subnet opp) (Addr4 (Destination fp))) \<longrightarrow>
      isl (checkPortForwarding p opp fp k)"
    by (simp add: checkPortForwarding_def Let_def)
  have c_kni: "isAddrZero fp \<and> KNIName p = [] \<longrightarrow> isl (checkPortForwarding p opp fp k)"
    by (simp add: checkPortForwarding_def Let_def)
  have c_load: "fst (ReadConfig (Decoded (Some cfg)) sk bu g) \<noteq> None"
    if pp: "pp \<in> set (PortPairs cfg)"
      and bad: "(\<exists>fp\<in>set (ForwardPorts (PrivatePort pp)).
            isl (checkPortForwarding ((PrivatePort pp)\<lparr>Type := iPRIVATE\<rparr>) (PublicPort pp) fp k)) \<or>
         (\<exists>fp\<in>set (ForwardPorts (PublicPort pp)).
            isl (checkPortForwarding ((PublicPort pp)\<lparr>Type := iPUBLIC\<rparr>) (PrivatePort pp) fp k))"
  proof -
    have "fst (readPair h pp g1) \<noteq> None" for h g1
      using bad readPair_abort_private [of pp k h g1] readPair_abort_public [of pp k h g1]
      by (metis prod.collapse)
    with pp show ?thesis by (intro ReadConfig_abort) blast
  qed
  from c_family c_private c_outside c_kni checkForwardPorts_first [of p opp fps k] c_load
  show ?thesis by blast
qed

text \<open>
  A TCP rule with the IPv6 destination \<open>[::1]:8080\<close> on the public interface: the
  load fails.
\<close>

theorem port_forwarding_rejections_witness:
  "fst (ReadConfig
     (Decoded (Some \<lparr>HostName = ''nat'',
           PortPairs =
             [\<lparr>PrivatePort =
                 \<lparr>Index = 0,
                  Subnet = \<lparr>Addr = 0xC0A80E01, Mask = 0xFFFFFF00, addressAcquired = True,
                            kniAddressSet = False\<rparr>,
                  Subnet6 = \<lparr>Addr_v6 = replicate 16 0, multicastAddr = replicate 16 0,
                             Mask_v6 = replicate 16 0, llAddr = replicate 16 0,
                             llMulticastAddr = replicate 16 0, addressAcquired_v6 = False,
                             kniAddressSet_v6 = False\<rparr>,
                  Vlan = 0, KNIName = [], ForwardPorts = [],
                  DstMACAddress = replicate 6 0, staticArpMode = False,
                  SrcMACAddress = replicate 6 0, Type = iPUBLIC,
                  portmap = [], portmap6 = [], translationTable = []\<rparr>,
               PublicPort =
                 \<lparr>Index = 1,
                  Subnet = \<lparr>Addr = 0xC0A81001, Mask = 0xFFFFFF00, addressAcquired = True,
                            kniAddressSet = False\<rparr>,
                  Subnet6 = \<lparr>Addr_v6 = replicate 16 0, multicastAddr = replicate 16 0,
                             Mask_v6 = replicate 16 0, llAddr = replicate 16 0,
                             llMulticastAddr = replicate 16 0, addressAcquired_v6 = False,
                             kniAddressSet_v6 = False\<rparr>,
                  Vlan = 0, KNIName = [],
                  ForwardPorts =
                    [\<lparr>Port = 8080,
                      Destination = \<lparr>Addr4 = 0, Addr6 = replicate 15 0 @ [1], Port_h = 8080,
                                     ipv6_h = True\<rparr>,
                      Protocol = \<lparr>id_p = 6, ipv6_p = False\<rparr>\<rparr>],
                  DstMACAddress = replicate 6 0, staticArpMode = False,
                  SrcMACAddress = replicate 6 0, Type = iPUBLIC,
                  portmap = [], portmap6 = [], translationTable = []\<rparr>,
               lastport = 0\<rparr>],
           setKniIP = False, bringUpKniInterfaces = False\<rparr>))
     False False \<lparr>Natconfig = None, NeedKNI = False, NeedDHCP = False\<rparr>) \<noteq> None"
  (is "fst (ReadConfig (Decoded (Some ?cfg)) _ _ ?g) \<noteq> None")
  using port_forwarding_rejections [where cfg = ?cfg and pp = "hd (PortPairs ?cfg)"
      and k = False and sk = False and bu = False and g = ?g]
  by (simp add: checkPortForwarding_def)

subsection \<open>Which check an error comes from\<close>

lemma checkPortForwarding_errors:
  "checkPortForwarding p opp fp k = Inl e \<Longrightarrow>
   e = ProtocolFamilyMismatch \<or> e = KniNameRequired (Index p) \<or>
   e = KniPortsDiffer (Port fp) (Port_h (Destination fp)) \<or> e = OnlyKniForwardingOnPrivate \<or>
   e = DestinationOutsideSubnet6 (Addr6 (Destination fp)) \<or>
   e = DestinationOutsideSubnet4 (Addr4 (Destination fp))"
  by (auto simp: checkPortForwarding_def Let_def split: if_splits)

lemma checkForwardPorts_errors:
  "checkForwardPorts p opp fps k = (Some e, fps', k') \<Longrightarrow>
   \<exists>fp\<in>set fps. \<exists>k1. checkPortForwarding p opp fp k1 = Inl e"
proof (induction fps arbitrary: k fps' k')
  case Nil
  then show ?case by simp
next
  case (Cons fp fps)
  show ?case
  proof (cases "checkPortForwarding p opp fp k")
    case (Inl e')
    with Cons.prems show ?thesis by auto
  next
    case (Inr x)
    obtain fp1 k1 where x: "x = (fp1, k1)" by (cases x)
    obtain r2 fps2 k2 where rest: "checkForwardPorts p opp fps k1 = (r2, fps2, k2)"
      by (cases "checkForwardPorts p opp fps k1") auto
    with Cons.prems Inr x have "r2 = Some e" by auto
    with Cons.IH rest show ?thesis by auto
  qed
qed

lemma readPort_errors:
  assumes "readPort h p opp g = (Some e, p', g')"
  shows "(e = DhcpRequiresHostName (Index p) \<and> \<not> addressAcquired (Subnet p) \<and> h = []) \<or>
         (\<exists>fp\<in>set (ForwardPorts p). \<exists>k1. checkPortForwarding p opp fp k1 = Inl e)"
proof (cases "\<not> addressAcquired (Subnet p) \<and> h = []")
  case True
  with assms show ?thesis by (auto simp: readPort_def)
next
  case False
  obtain r fps k where c: "checkForwardPorts p opp (ForwardPorts p)
           (NeedKNI (if KNIName p \<noteq> [] then (if \<not> addressAcquired (Subnet p) then g\<lparr>NeedDHCP := True\<rparr> else g)\<lparr>NeedKNI := True\<rparr>
                     else (if \<not> addressAcquired (Subnet p) then g\<lparr>NeedDHCP := True\<rparr> else g))) = (r, fps, k)"
    by (metis prod_cases3)
  with assms False have "r = Some e"
    by (auto simp: readPort_def Let_def split: if_splits option.splits)
  with c checkForwardPorts_errors show ?thesis by blast
qed


lemma readPair_errors:
  assumes "readPair h pp g = (Some e, pp', g')"
  shows "(e = VlanPrivateZeroPublicNonzero (Index (PrivatePort pp)) (Index (PublicPort pp)) \<and>
            Vlan (PrivatePort pp) = 0 \<and> Vlan (PublicPort pp) \<noteq> 0) \<or>
         (e = VlanPrivateNonzeroPublicZero (Index (PrivatePort pp)) (Index (PublicPort pp)) \<and>
            Vlan (PrivatePort pp) \<noteq> 0 \<and> Vlan (PublicPort pp) = 0) \<or>
         (e = VlanTogetherWithKNI \<and> Vlan (PrivatePort pp) \<noteq> 0 \<and> KNIName (PrivatePort pp) \<noteq> []) \<or>
         (\<exists>p opp g1 p' g2. readPort h p opp g1 = (Some e, p', g2) \<and>
            ((p = (PrivatePort pp)\<lparr>Type := iPRIVATE\<rparr>) \<or> (p = (PublicPort pp)\<lparr>Type := iPUBLIC\<rparr>)))"
  using assms
  by (simp add: readPair_def Let_def split: if_splits prod.splits option.splits) blast+

lemma readPairs_errors:
  "readPairs h pps g = (Some e, pps', g') \<Longrightarrow>
   \<exists>pp\<in>set pps. \<exists>g1 pp1 g2. readPair h pp g1 = (Some e, pp1, g2)"
proof (induction pps arbitrary: g pps' g')
  case Nil
  then show ?case by simp
next
  case (Cons pp pps)
  obtain r1 pp1 g1 where one: "readPair h pp g = (r1, pp1, g1)"
    by (cases "readPair h pp g") auto
  show ?case
  proof (cases r1)
    case (Some e')
    with one Cons.prems have "e' = e" by auto
    with one Some show ?thesis by auto
  next
    case None
    obtain r2 pps2 g2 where rest: "readPairs h pps g1 = (r2, pps2, g2)"
      by (cases "readPairs h pps g1") auto
    with one None Cons.prems have "r2 = Some e" by auto
    with Cons.IH rest show ?thesis by auto
  qed
qed

lemma ReadConfig_errors:
  assumes "fst (ReadConfig (Decoded (Some cfg)) sk bu g) = Some e"
  shows "\<exists>pp\<in>set (PortPairs cfg). \<exists>g1 pp1 g2. readPair (HostName cfg) pp g1 = (Some e, pp1, g2)"
proof -
  let ?cfg1 = "if sk then cfg\<lparr>setKniIP := True\<rparr> else cfg"
  let ?cfg2 = "if bu then ?cfg1\<lparr>bringUpKniInterfaces := True\<rparr> else ?cfg1"
  have h: "HostName ?cfg2 = HostName cfg" and pps: "PortPairs ?cfg2 = PortPairs cfg" by simp_all
  obtain r pps' g' where rp:
    "readPairs (HostName cfg) (PortPairs cfg) (g\<lparr>Natconfig := Some ?cfg2\<rparr>) = (r, pps', g')"
    by (metis prod_cases3)
  with assms have "r = Some e"
    by (simp add: ReadConfig_def Let_def h pps del: if_split split: prod.splits)
  with rp readPairs_errors show ?thesis by blast
qed


lemma readPort_not_vlan:
  "readPort h p opp g = (Some e, p', g') \<Longrightarrow>
   e \<noteq> VlanPrivateZeroPublicNonzero i j \<and> e \<noteq> VlanPrivateNonzeroPublicZero i j"
  by (auto dest!: readPort_errors checkPortForwarding_errors)

lemma readPair_vlan_error_iff:
  "(\<exists>i j pp' g'. readPair h pp g = (Some (VlanPrivateZeroPublicNonzero i j), pp', g') \<or>
                 readPair h pp g = (Some (VlanPrivateNonzeroPublicZero i j), pp', g')) \<Longrightarrow>
   (Vlan (PrivatePort pp) = 0) \<noteq> (Vlan (PublicPort pp) = 0)"
  by (auto dest!: readPair_errors readPort_not_vlan)

subsection \<open>VLAN tagging\<close>

text \<open>
  Claim C4. The VLAN agreement check of a pair fails exactly when one of the two
  interfaces has VLAN tag zero and the other a non-zero tag: a private tag of zero with a
  non-zero public tag gives the first error, the opposite asymmetry the second, each
  naming the two interface indices, and a pair whose tags are both zero or both non-zero
  gets neither. \<open>ReadConfig\<close> returns an error for every configuration with such a
  pair, and it returns one of the two VLAN errors only when the configuration has such
  a pair.
\<close>

theorem vlan_agreement:
  "(Vlan (PrivatePort pp) = 0 \<and> Vlan (PublicPort pp) \<noteq> 0 \<longrightarrow>
      fst (readPair h pp g) =
        Some (VlanPrivateZeroPublicNonzero (Index (PrivatePort pp)) (Index (PublicPort pp))))
   \<and> (Vlan (PrivatePort pp) \<noteq> 0 \<and> Vlan (PublicPort pp) = 0 \<longrightarrow>
      fst (readPair h pp g) =
        Some (VlanPrivateNonzeroPublicZero (Index (PrivatePort pp)) (Index (PublicPort pp))))
   \<and> ((Vlan (PrivatePort pp) = 0) = (Vlan (PublicPort pp) = 0) \<longrightarrow>
        (\<forall>i j. fst (readPair h pp g) \<noteq> Some (VlanPrivateZeroPublicNonzero i j) \<and>
               fst (readPair h pp g) \<noteq> Some (VlanPrivateNonzeroPublicZero i j)))
   \<and> (pp \<in> set (PortPairs cfg) \<and> (Vlan (PrivatePort pp) = 0) \<noteq> (Vlan (PublicPort pp) = 0) \<longrightarrow>
        fst (ReadConfig (Decoded (Some cfg)) sk bu g) \<noteq> None)
   \<and> ((\<exists>i j. fst (ReadConfig (Decoded (Some cfg)) sk bu g) = Some (VlanPrivateZeroPublicNonzero i j) \<or>
              fst (ReadConfig (Decoded (Some cfg)) sk bu g) = Some (VlanPrivateNonzeroPublicZero i j)) \<longrightarrow>
        (\<exists>pp\<in>set (PortPairs cfg). (Vlan (PrivatePort pp) = 0) \<noteq> (Vlan (PublicPort pp) = 0)))"
proof -
  have c_pz: "Vlan (PrivatePort pp) = 0 \<and> Vlan (PublicPort pp) \<noteq> 0 \<longrightarrow>
      fst (readPair h pp g) =
        Some (VlanPrivateZeroPublicNonzero (Index (PrivatePort pp)) (Index (PublicPort pp)))"
    by (simp add: readPair_def Let_def)
  have c_nz: "Vlan (PrivatePort pp) \<noteq> 0 \<and> Vlan (PublicPort pp) = 0 \<longrightarrow>
      fst (readPair h pp g) =
        Some (VlanPrivateNonzeroPublicZero (Index (PrivatePort pp)) (Index (PublicPort pp)))"
    by (simp add: readPair_def Let_def)
  have c_sym: "fst (readPair h pp g) \<noteq> Some (VlanPrivateZeroPublicNonzero i j) \<and>
               fst (readPair h pp g) \<noteq> Some (VlanPrivateNonzeroPublicZero i j)"
    if "(Vlan (PrivatePort pp) = 0) = (Vlan (PublicPort pp) = 0)" for i j
    using that readPair_vlan_error_iff [of h pp g] by (metis prod.collapse)
  have c_load: "fst (ReadConfig (Decoded (Some cfg)) sk bu g) \<noteq> None"
    if "pp \<in> set (PortPairs cfg)" "(Vlan (PrivatePort pp) = 0) \<noteq> (Vlan (PublicPort pp) = 0)"
  proof -
    have "fst (readPair h1 pp g1) \<noteq> None" for h1 g1
      using that(2) by (auto simp: readPair_def Let_def)
    with that(1) show ?thesis by (intro ReadConfig_abort) blast
  qed
  have c_only: "\<exists>pp\<in>set (PortPairs cfg). (Vlan (PrivatePort pp) = 0) \<noteq> (Vlan (PublicPort pp) = 0)"
    if "\<exists>i j. fst (ReadConfig (Decoded (Some cfg)) sk bu g) = Some (VlanPrivateZeroPublicNonzero i j) \<or>
              fst (ReadConfig (Decoded (Some cfg)) sk bu g) = Some (VlanPrivateNonzeroPublicZero i j)"
  proof -
    from that obtain e i j where e: "fst (ReadConfig (Decoded (Some cfg)) sk bu g) = Some e"
      and v: "e = VlanPrivateZeroPublicNonzero i j \<or> e = VlanPrivateNonzeroPublicZero i j"
      by blast
    from ReadConfig_errors [OF e] obtain pp1 g1 pp2 g2 where
      pp1: "pp1 \<in> set (PortPairs cfg)" and rp: "readPair (HostName cfg) pp1 g1 = (Some e, pp2, g2)"
      by blast
    from v rp readPair_vlan_error_iff [of "HostName cfg" pp1 g1]
    have "(Vlan (PrivatePort pp1) = 0) \<noteq> (Vlan (PublicPort pp1) = 0)" by blast
    with pp1 show ?thesis by blast
  qed
  from c_pz c_nz c_sym c_load c_only show ?thesis by blast
qed

text \<open>The pair with PRIVATE VLAN 0 and PUBLIC VLAN 7 is rejected.\<close>

theorem vlan_agreement_witness:
  "fst (ReadConfig
     (Decoded (Some \<lparr>HostName = ''nat'',
           PortPairs =
             [\<lparr>PrivatePort =
                 \<lparr>Index = 0,
                  Subnet = \<lparr>Addr = 0xC0A80E01, Mask = 0xFFFFFF00, addressAcquired = True,
                            kniAddressSet = False\<rparr>,
                  Subnet6 = \<lparr>Addr_v6 = replicate 16 0, multicastAddr = replicate 16 0,
                             Mask_v6 = replicate 16 0, llAddr = replicate 16 0,
                             llMulticastAddr = replicate 16 0, addressAcquired_v6 = False,
                             kniAddressSet_v6 = False\<rparr>,
                  Vlan = 0, KNIName = [],
                  ForwardPorts = [],
                  DstMACAddress = replicate 6 0, staticArpMode = False,
                  SrcMACAddress = replicate 6 0, Type = iPUBLIC,
                  portmap = [], portmap6 = [], translationTable = []\<rparr>,
               PublicPort =
                 \<lparr>Index = 1,
                  Subnet = \<lparr>Addr = 0xC0A81001, Mask = 0xFFFFFF00, addressAcquired = True,
                            kniAddressSet = False\<rparr>,
                  Subnet6 = \<lparr>Addr_v6 = replicate 16 0, multicastAddr = replicate 16 0,
                             Mask_v6 = replicate 16 0, llAddr = replicate 16 0,
                             llMulticastAddr = replicate 16 0, addressAcquired_v6 = False,
                             kniAddressSet_v6 = False\<rparr>,
                  Vlan = 7, KNIName = [],
                  ForwardPorts = [],
                  DstMACAddress = replicate 6 0, staticArpMode = False,
                  SrcMACAddress = replicate 6 0, Type = iPUBLIC,
                  portmap = [], portmap6 = [], translationTable = []\<rparr>,
               lastport = 0\<rparr>],
           setKniIP = False, bringUpKniInterfaces = False\<rparr>))
     False False \<lparr>Natconfig = None, NeedKNI = False, NeedDHCP = False\<rparr>) \<noteq> None"
  (is "fst (ReadConfig (Decoded (Some ?cfg)) _ _ ?g) \<noteq> None")
  using vlan_agreement [where cfg = ?cfg and pp = "hd (PortPairs ?cfg)"
      and sk = False and bu = False and g = ?g]
  by simp

lemma readPair_vlan_kni_private:
  "Vlan (PrivatePort pp) \<noteq> 0 \<Longrightarrow> KNIName (PrivatePort pp) \<noteq> [] \<Longrightarrow>
   fst (readPair h pp g) \<noteq> None"
  by (simp add: readPair_def Let_def)

text \<open>
  Claim C3 says that the load fails for every interface that combines a non-zero VLAN tag
  with a KNI name. The condition in \<open>ReadConfig\<close> tests the private interface in both
  halves of its disjunction, so the public interface is never tested: a pair whose
  interfaces both have VLAN tag 7 and whose public interface has the KNI name
  \<open>kni0\<close> loads without an error.
\<close>

theorem vlan_with_kni_on_public_accepted:
  "fst (ReadConfig
     (Decoded (Some \<lparr>HostName = [],
           PortPairs =
             [\<lparr>PrivatePort =
                 \<lparr>Index = 0,
                  Subnet = \<lparr>Addr = 0xC0A80E01, Mask = 0xFFFFFF00, addressAcquired = True,
                            kniAddressSet = False\<rparr>,
                  Subnet6 = \<lparr>Addr_v6 = replicate 16 0, multicastAddr = replicate 16 0,
                             Mask_v6 = replicate 16 0, llAddr = replicate 16 0,
                             llMulticastAddr = replicate 16 0, addressAcquired_v6 = False,
                             kniAddressSet_v6 = False\<rparr>,
                  Vlan = 7, KNIName = [], ForwardPorts = [],
                  DstMACAddress = replicate 6 0, staticArpMode = False,
                  SrcMACAddress = replicate 6 0, Type = iPUBLIC,
                  portmap = [], portmap6 = [], translationTable = []\<rparr>,
               PublicPort =
                 \<lparr>Index = 1,
                  Subnet = \<lparr>Addr = 0xC0A81001, Mask = 0xFFFFFF00, addressAcquired = True,
                            kniAddressSet = False\<rparr>,
                  Subnet6 = \<lparr>Addr_v6 = replicate 16 0, multicastAddr = replicate 16 0,
                             Mask_v6 = replicate 16 0, llAddr = replicate 16 0,
                             llMulticastAddr = replicate 16 0, addressAcquired_v6 = False,
                             kniAddressSet_v6 = False\<rparr>,
                  Vlan = 7, KNIName = ''kni0'', ForwardPorts = [],
                  DstMACAddress = replicate 6 0, staticArpMode = False,
                  SrcMACAddress = replicate 6 0, Type = iPUBLIC,
                  portmap = [], portmap6 = [], translationTable = []\<rparr>,
               lastport = 0\<rparr>],
           setKniIP = False, bringUpKniInterfaces = False\<rparr>))
     False False \<lparr>Natconfig = None, NeedKNI = False, NeedDHCP = False\<rparr>) = None"
  by (simp add: ReadConfig_def readPair_def readPort_def Let_def zeroMACAddress_def)

subsection \<open>What a successful load leaves behind\<close>

lemma checkPortForwarding_accepts:
  "checkPortForwarding p opp fp k = Inr (fp', k') \<Longrightarrow>
   fp' = (if \<not> isAddrZero fp \<and> Port_h (Destination fp) = 0
          then fp\<lparr>Destination := (Destination fp)\<lparr>Port_h := Port fp\<rparr>\<rparr> else fp)"
  by (auto simp: checkPortForwarding_def Let_def split: if_splits)

lemma checkForwardPorts_accepts:
  "checkForwardPorts p opp fps k = (None, fps', k') \<Longrightarrow>
   fps' = map (\<lambda>fp. if \<not> isAddrZero fp \<and> Port_h (Destination fp) = 0
                     then fp\<lparr>Destination := (Destination fp)\<lparr>Port_h := Port fp\<rparr>\<rparr> else fp) fps"
proof (induction fps arbitrary: k fps' k')
  case Nil
  then show ?case by simp
next
  case (Cons fp fps)
  show ?case
  proof (cases "checkPortForwarding p opp fp k")
    case (Inl e)
    with Cons.prems show ?thesis by simp
  next
    case (Inr x)
    obtain fp1 k1 where x: "x = (fp1, k1)" by (cases x)
    obtain r2 fps2 k2 where rest: "checkForwardPorts p opp fps k1 = (r2, fps2, k2)"
      by (cases "checkForwardPorts p opp fps k1") auto
    with Cons.prems Inr x have r2: "r2 = None" and fps': "fps' = fp1 # fps2" by auto
    from Inr x have "checkPortForwarding p opp fp k = Inr (fp1, k1)" by simp
    from checkPortForwarding_accepts [OF this] Cons.IH [OF rest [unfolded r2]] fps'
    show ?thesis by simp
  qed
qed

lemma readPort_accepts:
  assumes "readPort h p opp g = (None, p', g')"
  shows "ForwardPorts p' =
     map (\<lambda>fp. if \<not> isAddrZero fp \<and> Port_h (Destination fp) = 0
                then fp\<lparr>Destination := (Destination fp)\<lparr>Port_h := Port fp\<rparr>\<rparr> else fp)
       (ForwardPorts p)"
    and "NeedDHCP g' = (NeedDHCP g \<or> \<not> addressAcquired (Subnet p))"
    and "\<not> addressAcquired (Subnet p) \<Longrightarrow> h \<noteq> []"
  using assms
  by (auto simp: readPort_def Let_def split: if_splits prod.splits option.splits
      dest: checkForwardPorts_accepts)

lemma readPair_accepts:
  assumes "readPair h pp g = (None, pp', g')"
  shows "ForwardPorts (PrivatePort pp') =
     map (\<lambda>fp. if \<not> isAddrZero fp \<and> Port_h (Destination fp) = 0
                then fp\<lparr>Destination := (Destination fp)\<lparr>Port_h := Port fp\<rparr>\<rparr> else fp)
       (ForwardPorts (PrivatePort pp))"
    and "ForwardPorts (PublicPort pp') =
     map (\<lambda>fp. if \<not> isAddrZero fp \<and> Port_h (Destination fp) = 0
                then fp\<lparr>Destination := (Destination fp)\<lparr>Port_h := Port fp\<rparr>\<rparr> else fp)
       (ForwardPorts (PublicPort pp))"
    and "NeedDHCP g' = (NeedDHCP g \<or> \<not> addressAcquired (Subnet (PrivatePort pp)) \<or>
                         \<not> addressAcquired (Subnet (PublicPort pp)))"
proof -
  let ?priv = "(PrivatePort pp)\<lparr>Type := iPRIVATE\<rparr>"
  let ?pub = "(PublicPort pp)\<lparr>Type := iPUBLIC\<rparr>"
  from assms obtain priv g1 pub where
    a: "readPort h ?priv ?pub g = (None, priv, g1)" and
    b: "readPort h ?pub priv g1 = (None, pub, g')" and
    c: "pp' = pp\<lparr>PrivatePort := priv, PublicPort := pub\<rparr>"
    by (auto simp: readPair_def Let_def split: if_splits prod.splits option.splits)
  from readPort_accepts(1) [OF a] c show "ForwardPorts (PrivatePort pp') =
     map (\<lambda>fp. if \<not> isAddrZero fp \<and> Port_h (Destination fp) = 0
                then fp\<lparr>Destination := (Destination fp)\<lparr>Port_h := Port fp\<rparr>\<rparr> else fp)
       (ForwardPorts (PrivatePort pp))" by simp
  from readPort_accepts(1) [OF b] c show "ForwardPorts (PublicPort pp') =
     map (\<lambda>fp. if \<not> isAddrZero fp \<and> Port_h (Destination fp) = 0
                then fp\<lparr>Destination := (Destination fp)\<lparr>Port_h := Port fp\<rparr>\<rparr> else fp)
       (ForwardPorts (PublicPort pp))" by simp
  from readPort_accepts(2) [OF a] readPort_accepts(2) [OF b]
  show "NeedDHCP g' = (NeedDHCP g \<or> \<not> addressAcquired (Subnet (PrivatePort pp)) \<or>
                         \<not> addressAcquired (Subnet (PublicPort pp)))" by auto
qed

lemma readPairs_accepts:
  "readPairs h pps g = (None, pps', g') \<Longrightarrow>
   map (\<lambda>pp. ForwardPorts (PrivatePort pp)) pps' =
     map (\<lambda>pp. map (\<lambda>fp. if \<not> isAddrZero fp \<and> Port_h (Destination fp) = 0
                then fp\<lparr>Destination := (Destination fp)\<lparr>Port_h := Port fp\<rparr>\<rparr> else fp)
       (ForwardPorts (PrivatePort pp))) pps \<and>
   map (\<lambda>pp. ForwardPorts (PublicPort pp)) pps' =
     map (\<lambda>pp. map (\<lambda>fp. if \<not> isAddrZero fp \<and> Port_h (Destination fp) = 0
                then fp\<lparr>Destination := (Destination fp)\<lparr>Port_h := Port fp\<rparr>\<rparr> else fp)
       (ForwardPorts (PublicPort pp))) pps \<and>
   NeedDHCP g' = (NeedDHCP g \<or> (\<exists>pp\<in>set pps. \<not> addressAcquired (Subnet (PrivatePort pp)) \<or>
                         \<not> addressAcquired (Subnet (PublicPort pp))))"
proof (induction pps arbitrary: g pps' g')
  case Nil
  then show ?case by simp
next
  case (Cons pp pps)
  obtain r1 pp1 g1 where one: "readPair h pp g = (r1, pp1, g1)"
    by (cases "readPair h pp g") auto
  obtain r2 pps2 g2 where rest: "readPairs h pps g1 = (r2, pps2, g2)"
    by (cases "readPairs h pps g1") auto
  from Cons.prems one rest have r1: "r1 = None" and r2: "r2 = None"
    and pps': "pps' = pp1 # pps2" and g': "g' = g2"
    by (auto split: option.splits)
  note A = readPair_accepts [OF one [unfolded r1]]
  note B = Cons.IH [OF rest [unfolded r2]]
  from A B pps' g' show ?case by auto
qed

lemma ReadConfig_accepts:
  assumes "ReadConfig (Decoded (Some cfg)) sk bu g = (None, g')"
  shows "\<exists>cfg'. Natconfig g' = Some cfg' \<and> HostName cfg' = HostName cfg \<and>
     map (\<lambda>pp. ForwardPorts (PrivatePort pp)) (PortPairs cfg') =
       map (\<lambda>pp. map (\<lambda>fp. if \<not> isAddrZero fp \<and> Port_h (Destination fp) = 0
                then fp\<lparr>Destination := (Destination fp)\<lparr>Port_h := Port fp\<rparr>\<rparr> else fp)
         (ForwardPorts (PrivatePort pp))) (PortPairs cfg) \<and>
     map (\<lambda>pp. ForwardPorts (PublicPort pp)) (PortPairs cfg') =
       map (\<lambda>pp. map (\<lambda>fp. if \<not> isAddrZero fp \<and> Port_h (Destination fp) = 0
                then fp\<lparr>Destination := (Destination fp)\<lparr>Port_h := Port fp\<rparr>\<rparr> else fp)
         (ForwardPorts (PublicPort pp))) (PortPairs cfg) \<and>
     NeedDHCP g' = (NeedDHCP g \<or> (\<exists>pp\<in>set (PortPairs cfg).
         \<not> addressAcquired (Subnet (PrivatePort pp)) \<or> \<not> addressAcquired (Subnet (PublicPort pp))))"
proof -
  let ?cfg1 = "if sk then cfg\<lparr>setKniIP := True\<rparr> else cfg"
  let ?cfg2 = "if bu then ?cfg1\<lparr>bringUpKniInterfaces := True\<rparr> else ?cfg1"
  have h: "HostName ?cfg2 = HostName cfg" and pps: "PortPairs ?cfg2 = PortPairs cfg" by simp_all
  obtain r pps' g1 where rp:
    "readPairs (HostName cfg) (PortPairs cfg) (g\<lparr>Natconfig := Some ?cfg2\<rparr>) = (r, pps', g1)"
    by (metis prod_cases3)
  with assms have r: "r = None" and g': "g' = g1\<lparr>Natconfig := Some (?cfg2\<lparr>PortPairs := pps'\<rparr>)\<rparr>"
    by (simp_all add: ReadConfig_def Let_def h pps del: if_split split: prod.splits)
  from readPairs_accepts [OF rp [unfolded r]] g' h show ?thesis
    by (intro exI [of _ "?cfg2\<lparr>PortPairs := pps'\<rparr>"]) simp
qed

subsection \<open>Forwarded and destination ports\<close>

text \<open>
  Claim C5. A rule whose destination is the unspecified address and whose destination
  port differs from its forwarded port is rejected. A rule that is accepted, has a
  non-zero destination address and the destination port zero leaves the check with its
  destination port set to the forwarded port and nothing else changed. After a successful
  \<open>ReadConfig\<close> the rules of every interface in \<open>Natconfig\<close> are the rules of the
  file with exactly this default applied, so such a rule has the forwarded port as its
  destination port.
\<close>

theorem forwarding_ports_checked_and_defaulted:
  "(isAddrZero fp \<and> Port_h (Destination fp) \<noteq> Port fp \<longrightarrow>
      isl (checkPortForwarding p opp fp k))
   \<and> (checkPortForwarding p opp fp k = Inr (fp', k') \<and> \<not> isAddrZero fp \<and>
        Port_h (Destination fp) = 0 \<longrightarrow>
      fp' = fp\<lparr>Destination := (Destination fp)\<lparr>Port_h := Port fp\<rparr>\<rparr>)
   \<and> (ReadConfig (Decoded (Some cfg)) sk bu g = (None, g') \<longrightarrow>
        (\<exists>cfg'. Natconfig g' = Some cfg' \<and>
           map (\<lambda>pp. ForwardPorts (PrivatePort pp)) (PortPairs cfg') =
             map (\<lambda>pp. map (\<lambda>fp. if \<not> isAddrZero fp \<and> Port_h (Destination fp) = 0
                then fp\<lparr>Destination := (Destination fp)\<lparr>Port_h := Port fp\<rparr>\<rparr> else fp)
                 (ForwardPorts (PrivatePort pp))) (PortPairs cfg) \<and>
           map (\<lambda>pp. ForwardPorts (PublicPort pp)) (PortPairs cfg') =
             map (\<lambda>pp. map (\<lambda>fp. if \<not> isAddrZero fp \<and> Port_h (Destination fp) = 0
                then fp\<lparr>Destination := (Destination fp)\<lparr>Port_h := Port fp\<rparr>\<rparr> else fp)
                 (ForwardPorts (PublicPort pp))) (PortPairs cfg)))"
proof -
  have c_zero: "isAddrZero fp \<and> Port_h (Destination fp) \<noteq> Port fp \<longrightarrow>
      isl (checkPortForwarding p opp fp k)"
    by (simp add: checkPortForwarding_def Let_def)
  have c_default: "checkPortForwarding p opp fp k = Inr (fp', k') \<and> \<not> isAddrZero fp \<and>
        Port_h (Destination fp) = 0 \<longrightarrow>
      fp' = fp\<lparr>Destination := (Destination fp)\<lparr>Port_h := Port fp\<rparr>\<rparr>"
    by (auto dest: checkPortForwarding_accepts)
  have c_load: "\<exists>cfg'. Natconfig g' = Some cfg' \<and>
           map (\<lambda>pp. ForwardPorts (PrivatePort pp)) (PortPairs cfg') =
             map (\<lambda>pp. map (\<lambda>fp. if \<not> isAddrZero fp \<and> Port_h (Destination fp) = 0
                then fp\<lparr>Destination := (Destination fp)\<lparr>Port_h := Port fp\<rparr>\<rparr> else fp)
                 (ForwardPorts (PrivatePort pp))) (PortPairs cfg) \<and>
           map (\<lambda>pp. ForwardPorts (PublicPort pp)) (PortPairs cfg') =
             map (\<lambda>pp. map (\<lambda>fp. if \<not> isAddrZero fp \<and> Port_h (Destination fp) = 0
                then fp\<lparr>Destination := (Destination fp)\<lparr>Port_h := Port fp\<rparr>\<rparr> else fp)
                 (ForwardPorts (PublicPort pp))) (PortPairs cfg)"
    if "ReadConfig (Decoded (Some cfg)) sk bu g = (None, g')"
    using ReadConfig_accepts [OF that] by blast
  from c_zero c_default c_load show ?thesis by blast
qed

text \<open>
  The rule that forwards TCP port 8080 of the public interface to \<open>192.168.14.5\<close>
  with no destination port, the private subnet being \<open>192.168.14.1/24\<close>: after the
  load its destination port is 8080.
\<close>

theorem forwarding_ports_checked_and_defaulted_witness:
  "map (\<lambda>pp. map (\<lambda>fp. Port_h (Destination fp)) (ForwardPorts (PublicPort pp)))
     (PortPairs (the (Natconfig (snd (ReadConfig
     (Decoded (Some \<lparr>HostName = ''nat'',
           PortPairs =
             [\<lparr>PrivatePort =
                 \<lparr>Index = 0,
                  Subnet = \<lparr>Addr = 0xC0A80E01, Mask = 0xFFFFFF00, addressAcquired = True,
                            kniAddressSet = False\<rparr>,
                  Subnet6 = \<lparr>Addr_v6 = replicate 16 0, multicastAddr = replicate 16 0,
                             Mask_v6 = replicate 16 0, llAddr = replicate 16 0,
                             llMulticastAddr = replicate 16 0, addressAcquired_v6 = False,
                             kniAddressSet_v6 = False\<rparr>,
                  Vlan = 0, KNIName = [],
                  ForwardPorts = [],
                  DstMACAddress = replicate 6 0, staticArpMode = False,
                  SrcMACAddress = replicate 6 0, Type = iPUBLIC,
                  portmap = [], portmap6 = [], translationTable = []\<rparr>,
               PublicPort =
                 \<lparr>Index = 1,
                  Subnet = \<lparr>Addr = 0xC0A81001, Mask = 0xFFFFFF00, addressAcquired = True,
                            kniAddressSet = False\<rparr>,
                  Subnet6 = \<lparr>Addr_v6 = replicate 16 0, multicastAddr = replicate 16 0,
                             Mask_v6 = replicate 16 0, llAddr = replicate 16 0,
                             llMulticastAddr = replicate 16 0, addressAcquired_v6 = False,
                             kniAddressSet_v6 = False\<rparr>,
                  Vlan = 0, KNIName = [],
                  ForwardPorts = 
                    [\<lparr>Port = 8080,
                      Destination = \<lparr>Addr4 = 0xC0A80E05, Addr6 = replicate 16 0, Port_h = 0,
                                     ipv6_h = False\<rparr>,
                      Protocol = \<lparr>id_p = 6, ipv6_p = False\<rparr>\<rparr>],
                  DstMACAddress = replicate 6 0, staticArpMode = False,
                  SrcMACAddress = replicate 6 0, Type = iPUBLIC,
                  portmap = [], portmap6 = [], translationTable = []\<rparr>,
               lastport = 0\<rparr>],
           setKniIP = False, bringUpKniInterfaces = False\<rparr>))
     False False \<lparr>Natconfig = None, NeedKNI = False, NeedDHCP = False\<rparr>))))) = [[8080]]"
  (is "map _ (PortPairs (the (Natconfig (snd (ReadConfig (Decoded (Some ?cfg)) _ _ ?g))))) = _")
  using forwarding_ports_checked_and_defaulted [where cfg = ?cfg and sk = False and bu = False
      and g = ?g and g' = "snd (ReadConfig (Decoded (Some ?cfg)) False False ?g)"]
  by (simp add: ReadConfig_def readPair_def readPort_def checkPortForwarding_def isAddrZero_def
      checkAddrWithingSubnet_def Let_def zeroMACAddress_def)

subsection \<open>Interfaces that need DHCP\<close>







section \<open>Parsing subnets\<close>

lemma copy_same_length: "length src = length dst \<Longrightarrow> copy dst src = src"
  by (simp add: copy_def)

text \<open>
  Claim C7 says of both parsers that a valid CIDR string yields the parsed address and
  mask with \<open>addressAcquired\<close> set, and that a valid plain address yields that
  address with an all-ones mask. Two valid CIDR strings show that it does not hold for
  every one. For the IPv4 subnet, \<open>net.ParseCIDR\<close> accepts \<open>fe80::1/64\<close>; the
  address has no 4-byte form and \<open>convertIPv4\<close> returns its error. For the IPv6
  subnet, \<open>net.ParseCIDR\<close> accepts \<open>10.0.0.0/8\<close> and returns the 4-byte mask
  \<open>ff 00 00 00\<close>; \<open>copy\<close> writes these four bytes over the front of the 16-byte
  mask, which is not the parsed mask: the subnet that results contains
  \<open>::ffff:11.0.0.1\<close>, an address outside \<open>10.0.0.0/8\<close>.
\<close>

theorem subnet_parsing_not_every_cidr:
  "ipv4Subnet_UnmarshalJSON (Inr ''fe80::1/64'')
     (Some ([0xfe, 0x80, 0, 0, 0, 0, 0, 0, 0, 0, 0, 0, 0, 0, 0, 1],
            [255, 255, 255, 255, 255, 255, 255, 255, 0, 0, 0, 0, 0, 0, 0, 0]))
     None
     \<lparr>Addr = 0, Mask = 0, addressAcquired = False, kniAddressSet = False\<rparr>
   = Inl (OnlyIPv4Supported 0)
   \<and> ipv6Subnet_UnmarshalJSON (Inr ''10.0.0.0/8'')
     (Some ([0, 0, 0, 0, 0, 0, 0, 0, 0, 0, 255, 255, 10, 0, 0, 0], [255, 0, 0, 0]))
     None
     \<lparr>Addr_v6 = [0, 0, 0, 0, 0, 0, 0, 0, 0, 0, 0, 0, 0, 0, 0, 0],
      multicastAddr = [0, 0, 0, 0, 0, 0, 0, 0, 0, 0, 0, 0, 0, 0, 0, 0],
      Mask_v6 = [0, 0, 0, 0, 0, 0, 0, 0, 0, 0, 0, 0, 0, 0, 0, 0],
      llAddr = [0, 0, 0, 0, 0, 0, 0, 0, 0, 0, 0, 0, 0, 0, 0, 0],
      llMulticastAddr = [0, 0, 0, 0, 0, 0, 0, 0, 0, 0, 0, 0, 0, 0, 0, 0],
      addressAcquired_v6 = False, kniAddressSet_v6 = False\<rparr>
   = Inr \<lparr>Addr_v6 = [0, 0, 0, 0, 0, 0, 0, 0, 0, 0, 255, 255, 10, 0, 0, 0],
          multicastAddr = [0, 0, 0, 0, 0, 0, 0, 0, 0, 0, 0, 0, 0, 0, 0, 0],
          Mask_v6 = [255, 0, 0, 0, 0, 0, 0, 0, 0, 0, 0, 0, 0, 0, 0, 0],
          llAddr = [0, 0, 0, 0, 0, 0, 0, 0, 0, 0, 0, 0, 0, 0, 0, 0],
          llMulticastAddr = [0, 0, 0, 0, 0, 0, 0, 0, 0, 0, 0, 0, 0, 0, 0, 0],
          addressAcquired_v6 = True, kniAddressSet_v6 = False\<rparr>
   \<and> checkAddrWithingSubnet6
         \<lparr>Addr_v6 = [0, 0, 0, 0, 0, 0, 0, 0, 0, 0, 255, 255, 10, 0, 0, 0],
          multicastAddr = [0, 0, 0, 0, 0, 0, 0, 0, 0, 0, 0, 0, 0, 0, 0, 0],
          Mask_v6 = [255, 0, 0, 0, 0, 0, 0, 0, 0, 0, 0, 0, 0, 0, 0, 0],
          llAddr = [0, 0, 0, 0, 0, 0, 0, 0, 0, 0, 0, 0, 0, 0, 0, 0],
          llMulticastAddr = [0, 0, 0, 0, 0, 0, 0, 0, 0, 0, 0, 0, 0, 0, 0, 0],
          addressAcquired_v6 = True, kniAddressSet_v6 = False\<rparr>
         [0, 0, 0, 0, 0, 0, 0, 0, 0, 0, 255, 255, 11, 0, 0, 1]"
  by (simp add: ipv4Subnet_UnmarshalJSON_def ipv6Subnet_UnmarshalJSON_def To4_def To16_def
      v4InV6Prefix_def convertIPv4_def copy_def checkAddrWithingSubnet6_def andMask_map2)

text \<open>
  Claim C7, amended. For the IPv4 subnet: the string \<open>dhcp\<close> gives a zero address, a
  zero mask and \<open>addressAcquired = false\<close>; a valid CIDR string whose address has a
  4-byte form and whose mask has four bytes gives that address and mask, both as
  little-endian values, with \<open>addressAcquired = true\<close>; a valid CIDR string whose
  address has no 4-byte form, or whose address has one and whose mask is longer than four
  bytes, gives an error; a valid plain address with a 4-byte form (an IPv4 address, or an
  IPv4-mapped IPv6 address such as \<open>::ffff:10.0.0.1\<close>) gives the address with the
  all-ones mask and \<open>addressAcquired = true\<close>, one without a 4-byte form gives an
  error; every other string gives an error. For the IPv6 subnet: \<open>dhcp\<close> gives the
  zero address and mask and \<open>addressAcquired = false\<close>; a valid CIDR string with a
  16-byte mask (an IPv6 network) gives the parsed address and mask with
  \<open>addressAcquired = true\<close>; a valid plain address gives the address, in its 16-byte
  form, with the all-ones mask and \<open>addressAcquired = true\<close>; every other string
  gives an error. An error of \<open>json.Unmarshal\<close> is returned as it is. What the IPv6
  subnet makes of a CIDR string with a 4-byte mask is not part of the statement.
\<close>

theorem subnet_parsing:
  "ipv4Subnet_UnmarshalJSON (Inr ''dhcp'') cidr pip out =
     Inr (out\<lparr>Addr := 0, Mask := 0, addressAcquired := False\<rparr>)
   \<and> (s \<noteq> ''dhcp'' \<and> To4 ip = Some [a0, a1, a2, a3] \<longrightarrow>
        ipv4Subnet_UnmarshalJSON (Inr s) (Some (ip, [m0, m1, m2, m3])) pip out =
          Inr (out\<lparr>Addr := BytesToIPv4 a3 a2 a1 a0, Mask := BytesToIPv4 m3 m2 m1 m0,
                  addressAcquired := True\<rparr>))
   \<and> (s \<noteq> ''dhcp'' \<and> To4 ip = None \<longrightarrow>
        ipv4Subnet_UnmarshalJSON (Inr s) (Some (ip, msk)) pip out = Inl (OnlyIPv4Supported 0))
   \<and> (s \<noteq> ''dhcp'' \<and> To4 ip = Some [a0, a1, a2, a3] \<and> length msk > 4 \<longrightarrow>
        ipv4Subnet_UnmarshalJSON (Inr s) (Some (ip, msk)) pip out =
          Inl (OnlyIPv4Supported (length msk)))
   \<and> (s \<noteq> ''dhcp'' \<and> To4 ip = Some [a0, a1, a2, a3] \<longrightarrow>
        ipv4Subnet_UnmarshalJSON (Inr s) None (Some ip) out =
          Inr (out\<lparr>Addr := BytesToIPv4 a3 a2 a1 a0, Mask := 0xffffffff,
                  addressAcquired := True\<rparr>))
   \<and> (s \<noteq> ''dhcp'' \<and> To4 ip = None \<longrightarrow>
        ipv4Subnet_UnmarshalJSON (Inr s) None (Some ip) out = Inl (OnlyIPv4Supported 0))
   \<and> (s \<noteq> ''dhcp'' \<longrightarrow>
        ipv4Subnet_UnmarshalJSON (Inr s) None None out = Inl (FailedToParseAddress s))
   \<and> ipv4Subnet_UnmarshalJSON (Inl e) cidr pip out = Inl e
   \<and> ipv6Subnet_UnmarshalJSON (Inr ''dhcp'') cidr pip out6 =
        Inr (out6\<lparr>Addr_v6 := zeroIPv6Addr, Mask_v6 := zeroIPv6Addr,
                  addressAcquired_v6 := False\<rparr>)
   \<and> (s \<noteq> ''dhcp'' \<and> length ip = 16 \<and> length msk = 16 \<and>
        length (Addr_v6 out6) = 16 \<and> length (Mask_v6 out6) = 16 \<longrightarrow>
        ipv6Subnet_UnmarshalJSON (Inr s) (Some (ip, msk)) pip out6 =
          Inr (out6\<lparr>Addr_v6 := ip, Mask_v6 := msk, addressAcquired_v6 := True\<rparr>))
   \<and> (s \<noteq> ''dhcp'' \<and> length ip = 16 \<and> length (Addr_v6 out6) = 16 \<longrightarrow>
        ipv6Subnet_UnmarshalJSON (Inr s) None (Some ip) out6 =
          Inr (out6\<lparr>Addr_v6 := ip, Mask_v6 := replicate 16 255, addressAcquired_v6 := True\<rparr>))
   \<and> (s \<noteq> ''dhcp'' \<longrightarrow>
        ipv6Subnet_UnmarshalJSON (Inr s) None None out6 = Inl (FailedToParseAddress s))
   \<and> ipv6Subnet_UnmarshalJSON (Inl e) cidr pip out6 = Inl e"
proof -
  have v4_dhcp: "ipv4Subnet_UnmarshalJSON (Inr ''dhcp'') cidr pip out =
     Inr (out\<lparr>Addr := 0, Mask := 0, addressAcquired := False\<rparr>)"
    by (simp add: ipv4Subnet_UnmarshalJSON_def)
  have v4_cidr: "s \<noteq> ''dhcp'' \<and> To4 ip = Some [a0, a1, a2, a3] \<longrightarrow>
        ipv4Subnet_UnmarshalJSON (Inr s) (Some (ip, [m0, m1, m2, m3])) pip out =
          Inr (out\<lparr>Addr := BytesToIPv4 a3 a2 a1 a0, Mask := BytesToIPv4 m3 m2 m1 m0,
                  addressAcquired := True\<rparr>)"
    by (simp add: ipv4Subnet_UnmarshalJSON_def convertIPv4_def)
  have v4_cidr6: "s \<noteq> ''dhcp'' \<and> To4 ip = None \<longrightarrow>
        ipv4Subnet_UnmarshalJSON (Inr s) (Some (ip, msk)) pip out = Inl (OnlyIPv4Supported 0)"
    by (simp add: ipv4Subnet_UnmarshalJSON_def convertIPv4_def)
  have v4_mask: "s \<noteq> ''dhcp'' \<and> To4 ip = Some [a0, a1, a2, a3] \<and> length msk > 4 \<longrightarrow>
        ipv4Subnet_UnmarshalJSON (Inr s) (Some (ip, msk)) pip out =
          Inl (OnlyIPv4Supported (length msk))"
    by (simp add: ipv4Subnet_UnmarshalJSON_def convertIPv4_def)
  have v4_ip: "s \<noteq> ''dhcp'' \<and> To4 ip = Some [a0, a1, a2, a3] \<longrightarrow>
        ipv4Subnet_UnmarshalJSON (Inr s) None (Some ip) out =
          Inr (out\<lparr>Addr := BytesToIPv4 a3 a2 a1 a0, Mask := 0xffffffff,
                  addressAcquired := True\<rparr>)"
    by (simp add: ipv4Subnet_UnmarshalJSON_def convertIPv4_def)
  have v4_ip6: "s \<noteq> ''dhcp'' \<and> To4 ip = None \<longrightarrow>
        ipv4Subnet_UnmarshalJSON (Inr s) None (Some ip) out = Inl (OnlyIPv4Supported 0)"
    by (simp add: ipv4Subnet_UnmarshalJSON_def convertIPv4_def)
  have v4_other: "s \<noteq> ''dhcp'' \<longrightarrow>
        ipv4Subnet_UnmarshalJSON (Inr s) None None out = Inl (FailedToParseAddress s)"
    by (simp add: ipv4Subnet_UnmarshalJSON_def)
  have v4_json: "ipv4Subnet_UnmarshalJSON (Inl e) cidr pip out = Inl e"
    by (simp add: ipv4Subnet_UnmarshalJSON_def)
  have v6_dhcp: "ipv6Subnet_UnmarshalJSON (Inr ''dhcp'') cidr pip out6 =
        Inr (out6\<lparr>Addr_v6 := zeroIPv6Addr, Mask_v6 := zeroIPv6Addr,
                  addressAcquired_v6 := False\<rparr>)"
    by (simp add: ipv6Subnet_UnmarshalJSON_def)
  have v6_cidr: "s \<noteq> ''dhcp'' \<and> length ip = 16 \<and> length msk = 16 \<and>
        length (Addr_v6 out6) = 16 \<and> length (Mask_v6 out6) = 16 \<longrightarrow>
        ipv6Subnet_UnmarshalJSON (Inr s) (Some (ip, msk)) pip out6 =
          Inr (out6\<lparr>Addr_v6 := ip, Mask_v6 := msk, addressAcquired_v6 := True\<rparr>)"
    by (simp add: ipv6Subnet_UnmarshalJSON_def To16_def copy_same_length)
  have v6_ip: "s \<noteq> ''dhcp'' \<and> length ip = 16 \<and> length (Addr_v6 out6) = 16 \<longrightarrow>
        ipv6Subnet_UnmarshalJSON (Inr s) None (Some ip) out6 =
          Inr (out6\<lparr>Addr_v6 := ip, Mask_v6 := replicate 16 255, addressAcquired_v6 := True\<rparr>)"
    by (simp add: ipv6Subnet_UnmarshalJSON_def To16_def copy_same_length)
  have v6_other: "s \<noteq> ''dhcp'' \<longrightarrow>
        ipv6Subnet_UnmarshalJSON (Inr s) None None out6 = Inl (FailedToParseAddress s)"
    by (simp add: ipv6Subnet_UnmarshalJSON_def)
  have v6_json: "ipv6Subnet_UnmarshalJSON (Inl e) cidr pip out6 = Inl e"
    by (simp add: ipv6Subnet_UnmarshalJSON_def)
  from v4_dhcp v4_cidr v4_cidr6 v4_mask v4_ip v4_ip6 v4_other v4_json
    v6_dhcp v6_cidr v6_ip v6_other v6_json
  show ?thesis by (intro conjI)
qed

text \<open>
  The subnet \<open>192.168.1.0/24\<close>, and the plain address \<open>::ffff:10.0.0.1\<close>, which
  the IPv4 subnet takes as \<open>10.0.0.1\<close>.
\<close>

theorem subnet_parsing_witness:
  "ipv4Subnet_UnmarshalJSON (Inr ''192.168.1.0/24'')
     (Some ([0, 0, 0, 0, 0, 0, 0, 0, 0, 0, 255, 255, 192, 168, 1, 0], [255, 255, 255, 0]))
     None
     \<lparr>Addr = 0, Mask = 0, addressAcquired = False, kniAddressSet = False\<rparr>
   = Inr \<lparr>Addr = 0xC0A80100, Mask = 0xFFFFFF00, addressAcquired = True, kniAddressSet = False\<rparr>
   \<and> ipv4Subnet_UnmarshalJSON (Inr ''::ffff:10.0.0.1'')
     None
     (Some [0, 0, 0, 0, 0, 0, 0, 0, 0, 0, 255, 255, 10, 0, 0, 1])
     \<lparr>Addr = 0, Mask = 0, addressAcquired = False, kniAddressSet = False\<rparr>
   = Inr \<lparr>Addr = 0x0A000001, Mask = 0xFFFFFFFF, addressAcquired = True, kniAddressSet = False\<rparr>"
  using subnet_parsing [where s = "''192.168.1.0/24''"
      and ip = "[0, 0, 0, 0, 0, 0, 0, 0, 0, 0, 255, 255, 192, 168, 1, 0]"
      and ?a0.0 = 192 and ?a1.0 = 168 and ?a2.0 = 1 and ?a3.0 = 0
      and ?m0.0 = 255 and ?m1.0 = 255 and ?m2.0 = 255 and ?m3.0 = 0
      and pip = None
      and out = "\<lparr>Addr = 0, Mask = 0, addressAcquired = False, kniAddressSet = False\<rparr>"]
    subnet_parsing [where s = "''::ffff:10.0.0.1''"
      and ip = "[0, 0, 0, 0, 0, 0, 0, 0, 0, 0, 255, 255, 10, 0, 0, 1]"
      and ?a0.0 = 10 and ?a1.0 = 0 and ?a2.0 = 0 and ?a3.0 = 1
      and out = "\<lparr>Addr = 0, Mask = 0, addressAcquired = False, kniAddressSet = False\<rparr>"]
  by (simp add: To4_def v4InV6Prefix_def BytesToIPv4_def)

section \<open>Installing the static rules\<close>

lemma unat_protocol_less: "unat (x :: 8 word) < 256"
  using unsigned_less [of x, where ?'a = nat] by simp

text \<open>
  What \<open>enableStaticPortForward\<close> does when nothing panics. With the lookup tables of
  the interface and of its opposite allocated (256 tables each) and, on a PUBLIC
  interface, a slot for the rule's protocol and forwarded port in the port map of the
  rule's address family, the call returns, and: the table of the rule's protocol on the
  owning interface maps (subnet address of the interface, forwarded port) to (destination
  address, destination port); the table of the opposite interface gets the reverse
  mapping exactly when the destination address is non-zero; on a PUBLIC interface the
  slot of the forwarded port becomes static with \<open>finCount\<close> 0,
  \<open>terminationDirection\<close> 0 and the current time. The first half is the IPv4
  branch, the second the IPv6 branch.
\<close>

lemma static_port_forward_installed:
  "(\<not> ipv6_p (Protocol fp) \<and>
    length (translationTable p) = 256 \<and> length (translationTable opp) = 256 \<and>
    (Type p = iPUBLIC \<longrightarrow>
       unat (id_p (Protocol fp)) < length (portmap p) \<and>
       unat (Port fp) < length (portmap p ! unat (id_p (Protocol fp)))) \<longrightarrow>
    (\<exists>p' opp'.
       enableStaticPortForward now p opp fp = Inr (p', opp') \<and>
       translationTable p' =
         (translationTable p)[unat (id_p (Protocol fp)) :=
           (translationTable p ! unat (id_p (Protocol fp)))
             (Tuple (Addr (Subnet p)) (Port fp) \<mapsto>
              Tuple (Addr4 (Destination fp)) (Port_h (Destination fp)))] \<and>
       translationTable opp' =
         (if Addr4 (Destination fp) \<noteq> 0 then
            (translationTable opp)[unat (id_p (Protocol fp)) :=
              (translationTable opp ! unat (id_p (Protocol fp)))
                (Tuple (Addr4 (Destination fp)) (Port_h (Destination fp)) \<mapsto>
                 Tuple (Addr (Subnet p)) (Port fp))]
          else translationTable opp) \<and>
       portmap6 p' = portmap6 p \<and>
       portmap p' =
         (if Type p = iPUBLIC then
            (portmap p)[unat (id_p (Protocol fp)) :=
              (portmap p ! unat (id_p (Protocol fp)))[unat (Port fp) := \<lparr>lastused = now, finCount = 0, terminationDirection = 0, static = True\<rparr>]]
          else portmap p)))
   \<and>
   (ipv6_p (Protocol fp) \<and>
    length (translationTable p) = 256 \<and> length (translationTable opp) = 256 \<and>
    (Type p = iPUBLIC \<longrightarrow>
       unat (id_p (Protocol fp)) < length (portmap6 p) \<and>
       unat (Port fp) < length (portmap6 p ! unat (id_p (Protocol fp)))) \<longrightarrow>
    (\<exists>p' opp'.
       enableStaticPortForward now p opp fp = Inr (p', opp') \<and>
       translationTable p' =
         (translationTable p)[unat (id_p (Protocol fp)) :=
           (translationTable p ! unat (id_p (Protocol fp)))
             (Tuple6 (Addr_v6 (Subnet6 p)) (Port fp) \<mapsto>
              Tuple6 (Addr6 (Destination fp)) (Port_h (Destination fp)))] \<and>
       translationTable opp' =
         (if Addr6 (Destination fp) \<noteq> zeroIPv6Addr then
            (translationTable opp)[unat (id_p (Protocol fp)) :=
              (translationTable opp ! unat (id_p (Protocol fp)))
                (Tuple6 (Addr6 (Destination fp)) (Port_h (Destination fp)) \<mapsto>
                 Tuple6 (Addr_v6 (Subnet6 p)) (Port fp))]
          else translationTable opp) \<and>
       portmap p' = portmap p \<and>
       portmap6 p' =
         (if Type p = iPUBLIC then
            (portmap6 p)[unat (id_p (Protocol fp)) :=
              (portmap6 p ! unat (id_p (Protocol fp)))[unat (Port fp) := \<lparr>lastused = now, finCount = 0, terminationDirection = 0, static = True\<rparr>]]
          else portmap6 p)))"
proof -
  note defs = enableStaticPortForward_def Store_def setPortmapEntry_def getPortmap_def Let_def
  have lt: "unat (id_p (Protocol fp)) < 256" by (rule unat_protocol_less)
  show ?thesis
  proof (intro conjI impI)
    assume a: "\<not> ipv6_p (Protocol fp) \<and>
      length (translationTable p) = 256 \<and> length (translationTable opp) = 256 \<and>
      (Type p = iPUBLIC \<longrightarrow>
         unat (id_p (Protocol fp)) < length (portmap p) \<and>
         unat (Port fp) < length (portmap p ! unat (id_p (Protocol fp))))"
    show "\<exists>p' opp'.
       enableStaticPortForward now p opp fp = Inr (p', opp') \<and>
       translationTable p' =
         (translationTable p)[unat (id_p (Protocol fp)) :=
           (translationTable p ! unat (id_p (Protocol fp)))
             (Tuple (Addr (Subnet p)) (Port fp) \<mapsto>
              Tuple (Addr4 (Destination fp)) (Port_h (Destination fp)))] \<and>
       translationTable opp' =
         (if Addr4 (Destination fp) \<noteq> 0 then
            (translationTable opp)[unat (id_p (Protocol fp)) :=
              (translationTable opp ! unat (id_p (Protocol fp)))
                (Tuple (Addr4 (Destination fp)) (Port_h (Destination fp)) \<mapsto>
                 Tuple (Addr (Subnet p)) (Port fp))]
          else translationTable opp) \<and>
       portmap6 p' = portmap6 p \<and>
       portmap p' =
         (if Type p = iPUBLIC then
            (portmap p)[unat (id_p (Protocol fp)) :=
              (portmap p ! unat (id_p (Protocol fp)))[unat (Port fp) := \<lparr>lastused = now, finCount = 0, terminationDirection = 0, static = True\<rparr>]]
          else portmap p)"
      using a lt by (cases "Type p = iPUBLIC") (simp_all add: defs)
  next
    assume a: "ipv6_p (Protocol fp) \<and>
      length (translationTable p) = 256 \<and> length (translationTable opp) = 256 \<and>
      (Type p = iPUBLIC \<longrightarrow>
         unat (id_p (Protocol fp)) < length (portmap6 p) \<and>
         unat (Port fp) < length (portmap6 p ! unat (id_p (Protocol fp))))"
    show "\<exists>p' opp'.
       enableStaticPortForward now p opp fp = Inr (p', opp') \<and>
       translationTable p' =
         (translationTable p)[unat (id_p (Protocol fp)) :=
           (translationTable p ! unat (id_p (Protocol fp)))
             (Tuple6 (Addr_v6 (Subnet6 p)) (Port fp) \<mapsto>
              Tuple6 (Addr6 (Destination fp)) (Port_h (Destination fp)))] \<and>
       translationTable opp' =
         (if Addr6 (Destination fp) \<noteq> zeroIPv6Addr then
            (translationTable opp)[unat (id_p (Protocol fp)) :=
              (translationTable opp ! unat (id_p (Protocol fp)))
                (Tuple6 (Addr6 (Destination fp)) (Port_h (Destination fp)) \<mapsto>
                 Tuple6 (Addr_v6 (Subnet6 p)) (Port fp))]
          else translationTable opp) \<and>
       portmap p' = portmap p \<and>
       portmap6 p' =
         (if Type p = iPUBLIC then
            (portmap6 p)[unat (id_p (Protocol fp)) :=
              (portmap6 p ! unat (id_p (Protocol fp)))[unat (Port fp) := \<lparr>lastused = now, finCount = 0, terminationDirection = 0, static = True\<rparr>]]
          else portmap6 p)"
      using a lt by (cases "Type p = iPUBLIC") (simp_all add: defs)
  qed
qed

text \<open>
  The TCP rule forwarding port 8080 of the public interface \<open>192.168.16.1\<close> to
  \<open>192.168.14.5:80\<close>.
\<close>

lemma static_port_forward_installed_example:
  "\<exists>p' opp'.
     enableStaticPortForward 0
       (allocatePublicPortPortMap 65500
        (allocateLookupMap
          (\<lparr>Index = 1,
                  Subnet = \<lparr>Addr = 0xC0A81001, Mask = 0xFFFFFF00, addressAcquired = True,
                            kniAddressSet = False\<rparr>,
                  Subnet6 = \<lparr>Addr_v6 = replicate 16 0, multicastAddr = replicate 16 0,
                             Mask_v6 = replicate 16 0, llAddr = replicate 16 0,
                             llMulticastAddr = replicate 16 0, addressAcquired_v6 = False,
                             kniAddressSet_v6 = False\<rparr>,
                  Vlan = 0, KNIName = [],
                  ForwardPorts = 
                    [\<lparr>Port = 8080,
                      Destination = \<lparr>Addr4 = 0xC0A80E05, Addr6 = replicate 16 0, Port_h = 80,
                                     ipv6_h = False\<rparr>,
                      Protocol = \<lparr>id_p = 6, ipv6_p = False\<rparr>\<rparr>],
                  DstMACAddress = replicate 6 0, staticArpMode = False,
                  SrcMACAddress = replicate 6 0, Type = iPUBLIC,
                  portmap = [], portmap6 = [], translationTable = []\<rparr>)))
       (allocateLookupMap
        (\<lparr>Index = 0,
                  Subnet = \<lparr>Addr = 0xC0A80E01, Mask = 0xFFFFFF00, addressAcquired = True,
                            kniAddressSet = False\<rparr>,
                  Subnet6 = \<lparr>Addr_v6 = replicate 16 0, multicastAddr = replicate 16 0,
                             Mask_v6 = replicate 16 0, llAddr = replicate 16 0,
                             llMulticastAddr = replicate 16 0, addressAcquired_v6 = False,
                             kniAddressSet_v6 = False\<rparr>,
                  Vlan = 0, KNIName = [],
                  ForwardPorts = [],
                  DstMACAddress = replicate 6 0, staticArpMode = False,
                  SrcMACAddress = replicate 6 0, Type = iPRIVATE,
                  portmap = [], portmap6 = [], translationTable = []\<rparr>))
       (\<lparr>Port = 8080,
                      Destination = \<lparr>Addr4 = 0xC0A80E05, Addr6 = replicate 16 0, Port_h = 80,
                                     ipv6_h = False\<rparr>,
                      Protocol = \<lparr>id_p = 6, ipv6_p = False\<rparr>\<rparr>)
     = Inr (p', opp') \<and>
     (translationTable p' ! 6) (Tuple 0xC0A81001 8080) = Some (Tuple 0xC0A80E05 80) \<and>
     (translationTable opp' ! 6) (Tuple 0xC0A80E05 80) = Some (Tuple 0xC0A81001 8080) \<and>
     portmap p' ! 6 ! 8080 =
       \<lparr>lastused = 0, finCount = 0, terminationDirection = 0, static = True\<rparr>"
  (is "\<exists>p' opp'. enableStaticPortForward _ ?p ?opp ?fp = _ \<and> _")
  using static_port_forward_installed [where p = ?p and opp = ?opp and fp = ?fp and now = 0]
  by (auto simp: allocatePublicPortPortMap_def allocateLookupMap_def
      ICMPNumber_def TCPNumber_def UDPNumber_def ICMPv6Number_def)

text \<open>
  On a PUBLIC interface the write to a slot that the port map does not have panics, after
  the mappings have been stored.
\<close>

lemma enableStaticPortForward_without_slot:
  assumes "Type p = iPUBLIC" and "\<not> ipv6_p (Protocol fp)"
    and "length (translationTable p) = 256" and "length (translationTable opp) = 256"
    and "unat (id_p (Protocol fp)) < length (portmap p)"
    and "\<not> unat (Port fp) < length (portmap p ! unat (id_p (Protocol fp)))"
  shows "enableStaticPortForward now p opp fp =
     Inl (PanicIndexOutOfRange (unat (Port fp)) (length (portmap p ! unat (id_p (Protocol fp)))))"
  using assms unat_protocol_less [of "id_p (Protocol fp)"]
  by (simp add: enableStaticPortForward_def Store_def setPortmapEntry_def getPortmap_def Let_def)

text \<open>
  Claim C9 says that for every forwarding rule \<open>enableStaticPortForward\<close> installs the
  mappings and, on a PUBLIC interface, marks the slot of the forwarded port as static.
  The port map has slots only for the protocols that \<open>allocatePublicPortPortMap\<close>
  allocates and only for the ports below \<open>portEnd\<close>, and nothing compares a rule
  with that: \<open>protocolId.UnmarshalJSON\<close> rejects unknown protocol names but never
  runs for a rule without a \<open>protocol\<close> key, and the forwarded port is never
  compared with \<open>portEnd\<close>. A rule forwarding port 8080 of the public interface to
  \<open>192.168.14.5:80\<close>, read from JSON without a \<open>protocol\<close> key, has protocol
  number 0. \<open>ReadConfig\<close> accepts the configuration; then, with the tables and the
  slot arrays allocated as \<open>InitFlows\<close> allocates them, whatever \<open>portEnd\<close> is,
  installing the rules of the public interface panics on the write to the slot instead
  of marking one.
\<close>

theorem static_forward_without_slot_panics:
  "fst (ReadConfig
     (Decoded (Some \<lparr>HostName = ''nat'',
           PortPairs =
             [\<lparr>PrivatePort =
                 \<lparr>Index = 0,
                  Subnet = \<lparr>Addr = 0xC0A80E01, Mask = 0xFFFFFF00, addressAcquired = True,
                            kniAddressSet = False\<rparr>,
                  Subnet6 = \<lparr>Addr_v6 = replicate 16 0, multicastAddr = replicate 16 0,
                             Mask_v6 = replicate 16 0, llAddr = replicate 16 0,
                             llMulticastAddr = replicate 16 0, addressAcquired_v6 = False,
                             kniAddressSet_v6 = False\<rparr>,
                  Vlan = 0, KNIName = [],
                  ForwardPorts = [],
                  DstMACAddress = replicate 6 0, staticArpMode = False,
                  SrcMACAddress = replicate 6 0, Type = iPUBLIC,
                  portmap = [], portmap6 = [], translationTable = []\<rparr>,
               PublicPort =
                 \<lparr>Index = 1,
                  Subnet = \<lparr>Addr = 0xC0A81001, Mask = 0xFFFFFF00, addressAcquired = True,
                            kniAddressSet = False\<rparr>,
                  Subnet6 = \<lparr>Addr_v6 = replicate 16 0, multicastAddr = replicate 16 0,
                             Mask_v6 = replicate 16 0, llAddr = replicate 16 0,
                             llMulticastAddr = replicate 16 0, addressAcquired_v6 = False,
                             kniAddressSet_v6 = False\<rparr>,
                  Vlan = 0, KNIName = [],
                  ForwardPorts = 
                    [\<lparr>Port = 8080,
                      Destination = \<lparr>Addr4 = 0xC0A80E05, Addr6 = replicate 16 0, Port_h = 80,
                                     ipv6_h = False\<rparr>,
                      Protocol = \<lparr>id_p = 0, ipv6_p = False\<rparr>\<rparr>],
                  DstMACAddress = replicate 6 0, staticArpMode = False,
                  SrcMACAddress = replicate 6 0, Type = iPUBLIC,
                  portmap = [], portmap6 = [], translationTable = []\<rparr>,
               lastport = 0\<rparr>],
           setKniIP = False, bringUpKniInterfaces = False\<rparr>))
     False False \<lparr>Natconfig = None, NeedKNI = False, NeedDHCP = False\<rparr>) = None
   \<and> initPortPortForwardingEntries now
       (allocatePublicPortPortMap portEnd (allocateLookupMap (PublicPort
  (hd (PortPairs (the (Natconfig (snd
   (ReadConfig
     (Decoded (Some \<lparr>HostName = ''nat'',
           PortPairs =
             [\<lparr>PrivatePort =
                 \<lparr>Index = 0,
                  Subnet = \<lparr>Addr = 0xC0A80E01, Mask = 0xFFFFFF00, addressAcquired = True,
                            kniAddressSet = False\<rparr>,
                  Subnet6 = \<lparr>Addr_v6 = replicate 16 0, multicastAddr = replicate 16 0,
                             Mask_v6 = replicate 16 0, llAddr = replicate 16 0,
                             llMulticastAddr = replicate 16 0, addressAcquired_v6 = False,
                             kniAddressSet_v6 = False\<rparr>,
                  Vlan = 0, KNIName = [],
                  ForwardPorts = [],
                  DstMACAddress = replicate 6 0, staticArpMode = False,
                  SrcMACAddress = replicate 6 0, Type = iPUBLIC,
                  portmap = [], portmap6 = [], translationTable = []\<rparr>,
               PublicPort =
                 \<lparr>Index = 1,
                  Subnet = \<lparr>Addr = 0xC0A81001, Mask = 0xFFFFFF00, addressAcquired = True,
                            kniAddressSet = False\<rparr>,
                  Subnet6 = \<lparr>Addr_v6 = replicate 16 0, multicastAddr = replicate 16 0,
                             Mask_v6 = replicate 16 0, llAddr = replicate 16 0,
                             llMulticastAddr = replicate 16 0, addressAcquired_v6 = False,
                             kniAddressSet_v6 = False\<rparr>,
                  Vlan = 0, KNIName = [],
                  ForwardPorts = 
                    [\<lparr>Port = 8080,
                      Destination = \<lparr>Addr4 = 0xC0A80E05, Addr6 = replicate 16 0, Port_h = 80,
                                     ipv6_h = False\<rparr>,
                      Protocol = \<lparr>id_p = 0, ipv6_p = False\<rparr>\<rparr>],
                  DstMACAddress = replicate 6 0, staticArpMode = False,
                  SrcMACAddress = replicate 6 0, Type = iPUBLIC,
                  portmap = [], portmap6 = [], translationTable = []\<rparr>,
               lastport = 0\<rparr>],
           setKniIP = False, bringUpKniInterfaces = False\<rparr>))
     False False \<lparr>Natconfig = None, NeedKNI = False, NeedDHCP = False\<rparr>)))))))))
       (allocateLookupMap (PrivatePort
  (hd (PortPairs (the (Natconfig (snd
   (ReadConfig
     (Decoded (Some \<lparr>HostName = ''nat'',
           PortPairs =
             [\<lparr>PrivatePort =
                 \<lparr>Index = 0,
                  Subnet = \<lparr>Addr = 0xC0A80E01, Mask = 0xFFFFFF00, addressAcquired = True,
                            kniAddressSet = False\<rparr>,
                  Subnet6 = \<lparr>Addr_v6 = replicate 16 0, multicastAddr = replicate 16 0,
                             Mask_v6 = replicate 16 0, llAddr = replicate 16 0,
                             llMulticastAddr = replicate 16 0, addressAcquired_v6 = False,
                             kniAddressSet_v6 = False\<rparr>,
                  Vlan = 0, KNIName = [],
                  ForwardPorts = [],
                  DstMACAddress = replicate 6 0, staticArpMode = False,
                  SrcMACAddress = replicate 6 0, Type = iPUBLIC,
                  portmap = [], portmap6 = [], translationTable = []\<rparr>,
               PublicPort =
                 \<lparr>Index = 1,
                  Subnet = \<lparr>Addr = 0xC0A81001, Mask = 0xFFFFFF00, addressAcquired = True,
                            kniAddressSet = False\<rparr>,
                  Subnet6 = \<lparr>Addr_v6 = replicate 16 0, multicastAddr = replicate 16 0,
                             Mask_v6 = replicate 16 0, llAddr = replicate 16 0,
                             llMulticastAddr = replicate 16 0, addressAcquired_v6 = False,
                             kniAddressSet_v6 = False\<rparr>,
                  Vlan = 0, KNIName = [],
                  ForwardPorts = 
                    [\<lparr>Port = 8080,
                      Destination = \<lparr>Addr4 = 0xC0A80E05, Addr6 = replicate 16 0, Port_h = 80,
                                     ipv6_h = False\<rparr>,
                      Protocol = \<lparr>id_p = 0, ipv6_p = False\<rparr>\<rparr>],
                  DstMACAddress = replicate 6 0, staticArpMode = False,
                  SrcMACAddress = replicate 6 0, Type = iPUBLIC,
                  portmap = [], portmap6 = [], translationTable = []\<rparr>,
               lastport = 0\<rparr>],
           setKniIP = False, bringUpKniInterfaces = False\<rparr>))
     False False \<lparr>Natconfig = None, NeedKNI = False, NeedDHCP = False\<rparr>))))))))
     = Inl (PanicIndexOutOfRange 8080 0)"
  by (simp add: ReadConfig_def readPair_def readPort_def checkPortForwarding_def isAddrZero_def
      checkAddrWithingSubnet_def Let_def zeroMACAddress_def
      initPortPortForwardingEntries_def enableStaticPortForward_def Store_def
      setPortmapEntry_def getPortmap_def allocatePublicPortPortMap_def allocateLookupMap_def
      ICMPNumber_def TCPNumber_def UDPNumber_def ICMPv6Number_def)

end
